theory Spec2Isabelle
  imports Main
begin

section \<open>Values exchanged with the REST transport (nodejs/lib/util/http.js)\<close>

text \<open>
  The \<open>code\<close> property of a JavaScript error value: absent, a string such as
  \<open>ETIMEDOUT\<close>, or a number such as \<open>40100\<close>.
\<close>

datatype js_code = CodeUndefined | CodeStr string | CodeNum int

text \<open>
  Where an error value comes from: an \<open>ErrorInfo\<close> built by the response handler, an
  error with which the HTTP library rejected the request, or a JavaScript exception thrown by
  a body decoder or a property access.
\<close>

datatype js_exception = SyntaxError | MsgpackDecodeError | TypeError

datatype error_kind = ErrorInfoKind | TransportKind | ExceptionKind js_exception

text \<open>
  An error value as the transport handles it. \<open>shouldFallback\<close> reads \<open>code\<close> and
  \<open>statusCode\<close> only; a missing or null \<open>statusCode\<close> is \<open>None\<close>.
\<close>

record error_value =
  kind :: error_kind
  message :: string
  code :: js_code
  statusCode :: "int option"

subsection \<open>shouldFallback\<close>

text \<open>
  Lines 58 to 70. A comparison of \<open>undefined\<close> or \<open>null\<close> with 500 is false in
  JavaScript, so a missing status code never makes an error retryable.
\<close>

definition shouldFallback :: "error_value \<Rightarrow> bool" where
  "shouldFallback err =
     (let code = code err; statusCode = statusCode err in
      code = CodeStr ''ENETUNREACH'' \<or>
      code = CodeStr ''EHOSTUNREACH'' \<or>
      code = CodeStr ''EHOSTDOWN'' \<or>
      code = CodeStr ''ETIMEDOUT'' \<or>
      code = CodeStr ''ESOCKETTIMEDOUT'' \<or>
      code = CodeStr ''ENOTFOUND'' \<or>
      code = CodeStr ''ECONNRESET'' \<or>
      code = CodeStr ''ECONNREFUSED'' \<or>
      (case statusCode of None \<Rightarrow> False | Some sc \<Rightarrow> sc \<ge> 500 \<and> sc \<le> 504))"

text \<open>The network-failure codes that the classifier recognises.\<close>

definition network_failure_codes :: "string list" where
  "network_failure_codes =
     [''ENETUNREACH'', ''EHOSTUNREACH'', ''EHOSTDOWN'', ''ETIMEDOUT'',
      ''ESOCKETTIMEDOUT'', ''ENOTFOUND'', ''ECONNRESET'', ''ECONNREFUSED'']"

subsection \<open>Response bodies and the response handler\<close>

text \<open>
  A decoded body is a JSON-like value; numbers are integers here. A body handed to the caller
  is either the raw buffer the HTTP library returned (the request sets
  \<open>responseType: 'buffer'\<close>) or a decoded value; \<open>BodyUndefined\<close> stands for a missing
  argument.
\<close>

datatype json =
    JNull
  | JBool bool
  | JNum int
  | JStr string
  | JArr "json list"
  | JObj "(string \<times> json) list"

datatype body = BodyUndefined | Buffer string | Decoded json

type_synonym headers = "(string \<times> string) list"

record response =
  res_statusCode :: int
  res_headers :: headers
  res_body :: string

datatype http_method = Get | Delete | Post | Put | Patch

record agent_options =
  keepAlive :: bool
  maxSockets :: nat

record agent_pair =
  http :: agent_options
  https :: agent_options

text \<open>The options object \<open>doOptions\<close> that \<open>doUri\<close> hands to the HTTP library.\<close>

record request =
  req_method :: http_method
  req_url :: string
  req_headers :: "headers option"
  req_body :: "string option"
  req_searchParams :: "(string \<times> string) list option"
  req_agent :: agent_pair
  req_timeout :: int

text \<open>How the promise of the HTTP library settles (lines 205 to 213).\<close>

datatype got_settled =
    Fulfilled response
  | RejectedHTTPError response
  | Rejected error_value

text \<open>
  What the module uses and does not define: the decoders (\<open>None\<close> when the decoder throws),
  \<open>Utils.inspect\<close>, the constants of \<open>Defaults\<close>, the HTTP library (the outcome of the
  \<open>n\<close>-th request sent, given its options) and the clock (\<open>Date.now()\<close> as read once
  \<open>n\<close> requests have been sent).
\<close>

record environment =
  json_parse :: "string \<Rightarrow> json option"
  msgpack_decode :: "string \<Rightarrow> json option"
  inspect :: "body \<Rightarrow> string"
  default_restAgentOptions :: agent_options
  default_httpRequestTimeout :: int
  internetUpUrl :: string
  got :: "nat \<Rightarrow> request \<Rightarrow> got_settled"
  now :: "nat \<Rightarrow> int"

text \<open>The arguments with which a callback is invoked: \<open>callback(err)\<close> at line 32, or
  \<open>callback(error, body, headers, unpacked, statusCode)\<close> at lines 49 and 52.\<close>

datatype callback_args =
    CallbackErr error_value
  | CallbackResponse "error_value option" body headers bool int

fun callback_err :: "callback_args \<Rightarrow> error_value option" where
  "callback_err (CallbackErr e) = Some e"
| "callback_err (CallbackResponse e b h u sc) = e"

text \<open>JavaScript truthiness of a decoded value and of a header value.\<close>

fun truthy :: "json \<Rightarrow> bool" where
  "truthy JNull = False"
| "truthy (JBool b) = b"
| "truthy (JNum n) = (n \<noteq> 0)"
| "truthy (JStr s) = (s \<noteq> [])"
| "truthy (JArr xs) = True"
| "truthy (JObj kvs) = True"

text \<open>Reading a property of a decoded value; \<open>None\<close> is \<open>undefined\<close>.\<close>

fun property :: "json \<Rightarrow> string \<Rightarrow> json option" where
  "property (JObj kvs) k = map_of kvs k"
| "property v k = None"

text \<open>
  \<open>body.error\<close> at line 44: reading a property of \<open>null\<close> or \<open>undefined\<close> throws a
  \<open>TypeError\<close>; a buffer has no such property.
\<close>

fun body_error :: "body \<Rightarrow> js_exception + json option" where
  "body_error BodyUndefined = Inl TypeError"
| "body_error (Buffer s) = Inr None"
| "body_error (Decoded JNull) = Inl TypeError"
| "body_error (Decoded v) = Inr (property v ''error'')"

text \<open>Decimal rendering of a status code, as string concatenation renders a number.\<close>

fun string_of_nat :: "nat \<Rightarrow> string" where
  "string_of_nat n =
     (if n < 10 then [''0123456789'' ! n]
      else string_of_nat (n div 10) @ [''0123456789'' ! (n mod 10)])"

definition string_of_int :: "int \<Rightarrow> string" where
  "string_of_int i = (if i < 0 then CHR ''-'' # string_of_nat (nat (- i)) else string_of_nat (nat i))"

text \<open>
  Modelled from the spec: the \<open>ErrorInfo\<close> type (common/lib/types/errorinfo) is not among the
  sources. Its constructor takes a message, a code and a status code; \<open>fromValues\<close> turns an
  error payload into an \<open>ErrorInfo\<close> with exactly the payload's message, code and status
  code.
\<close>

definition ErrorInfo :: "string \<Rightarrow> js_code \<Rightarrow> int option \<Rightarrow> error_value" where
  "ErrorInfo m c sc = \<lparr>kind = ErrorInfoKind, message = m, code = c, statusCode = sc\<rparr>"

definition fromValues :: "json \<Rightarrow> error_value" where
  "fromValues v =
     ErrorInfo
       (case property v ''message'' of Some (JStr m) \<Rightarrow> m | _ \<Rightarrow> [])
       (case property v ''code'' of Some (JStr c) \<Rightarrow> CodeStr c | Some (JNum n) \<Rightarrow> CodeNum n
          | _ \<Rightarrow> CodeUndefined)
       (case property v ''statusCode'' of Some (JNum n) \<Rightarrow> Some n | _ \<Rightarrow> None)"

text \<open>
  The \<open>switch\<close> at lines 37 to 43: the content type is compared with the two literals;
  any other content type leaves the body as it is. A decoder that throws makes the whole
  handler throw.
\<close>

definition decode_body :: "environment \<Rightarrow> headers \<Rightarrow> body \<Rightarrow> js_exception + body" where
  "decode_body E headers body =
     (if map_of headers ''content-type'' = Some ''application/json'' then
        (case body of
           Buffer s \<Rightarrow> (case json_parse E s of None \<Rightarrow> Inl SyntaxError | Some v \<Rightarrow> Inr (Decoded v))
         | _ \<Rightarrow> Inl SyntaxError)
      else if map_of headers ''content-type'' = Some ''application/x-msgpack'' then
        (case body of
           Buffer s \<Rightarrow>
             (case msgpack_decode E s of None \<Rightarrow> Inl MsgpackDecodeError | Some v \<Rightarrow> Inr (Decoded v))
         | _ \<Rightarrow> Inl MsgpackDecodeError)
      else Inr body)"

definition header_or :: "headers \<Rightarrow> string \<Rightarrow> string \<Rightarrow> string" where
  "header_or headers k d = (case map_of headers k of Some v \<Rightarrow> (if v = [] then d else v) | None \<Rightarrow> d)"

text \<open>
  The function returned by \<open>handler(uri, params, callback)\<close>, lines 30 to 53. The result is
  the exception it throws (\<open>Inl\<close>) or the arguments with which it invokes the callback.
\<close>

definition handler ::
  "environment \<Rightarrow> error_value option \<Rightarrow> response option \<Rightarrow> body \<Rightarrow> js_exception + callback_args" where
  "handler E err response body =
     (case err of
        Some e \<Rightarrow> Inr (CallbackErr e)
      | None \<Rightarrow>
        (case response of
           None \<Rightarrow> Inl TypeError
         | Some res \<Rightarrow>
           (let statusCode = res_statusCode res; headers = res_headers res in
            if statusCode \<ge> 300 then
              (case decode_body E headers body of
                 Inl ex \<Rightarrow> Inl ex
               | Inr body' \<Rightarrow>
                 (case body_error body' of
                    Inl ex \<Rightarrow> Inl ex
                  | Inr field \<Rightarrow>
                    (let error =
                       (case field of
                          Some v \<Rightarrow>
                            if truthy v then fromValues v
                            else ErrorInfo
                              (header_or headers ''x-ably-errormessage''
                                 (''Error response received from server: '' @ string_of_int statusCode
                                   @ '' body was: '' @ inspect E body'))
                              (case map_of headers ''x-ably-errorcode'' of
                                 Some c \<Rightarrow> CodeStr c | None \<Rightarrow> CodeUndefined)
                              (Some statusCode)
                        | None \<Rightarrow>
                            ErrorInfo
                              (header_or headers ''x-ably-errormessage''
                                 (''Error response received from server: '' @ string_of_int statusCode
                                   @ '' body was: '' @ inspect E body'))
                              (case map_of headers ''x-ably-errorcode'' of
                                 Some c \<Rightarrow> CodeStr c | None \<Rightarrow> CodeUndefined)
                              (Some statusCode))
                     in Inr (CallbackResponse (Some error) body' headers True statusCode))))
            else Inr (CallbackResponse None body headers False statusCode))))"

subsection \<open>Client, module state and a single request\<close>

text \<open>
  The client (\<open>rest\<close>) as the module reads it. \<open>Defaults.getHosts(options)\<close> and
  \<open>Defaults.getFallbackHosts(options)\<close> are not defined in this module; the lists they return
  for this client are taken as given. \<open>connectionHost\<close> is
  \<open>connection && connection.connectionManager.host\<close>. The client's options are normalised:
  \<open>timeouts\<close> is always present.
\<close>

record rest_client =
  restAgentOptions :: "agent_options option"
  httpRequestTimeout :: int
  fallbackRetryTimeout :: int
  baseUri :: "string option \<Rightarrow> string"
  connectionHost :: "string option"
  defaults_getFallbackHosts :: "string list"
  defaults_getHosts :: "string list"

text \<open>
  A stored fallback, \<open>rest._currentFallback\<close>. The host is what \<open>candidateHosts.shift()\<close>
  returned, which is \<open>undefined\<close> (\<open>None\<close>) on an empty array.
\<close>

record fallback_record =
  host :: "string option"
  validUntil :: int

text \<open>
  The mutable state: the client's \<open>_currentFallback\<close>, the module-wide \<open>Http.agent\<close>, and
  the requests handed to the HTTP library so far, oldest first.
\<close>

record state =
  currentFallback :: "fallback_record option"
  agent :: "agent_pair option"
  sent :: "request list"

text \<open>
  The outcome of a request or of a dispatch: the caller's callback is invoked with these
  arguments, or an exception escapes inside a promise reaction and the callback is never
  invoked.
\<close>

datatype outcome = Called callback_args | Unhandled js_exception

text \<open>The arguments of \<open>Http.do\<close> other than the client and the callback.\<close>

datatype path = PathFunction "string option \<Rightarrow> string" | PathString string

record do_args =
  arg_method :: http_method
  arg_path :: path
  arg_headers :: "headers option"
  arg_body :: "string option"
  arg_params :: "(string \<times> string) list option"

definition uriFromHost :: "rest_client \<Rightarrow> path \<Rightarrow> string option \<Rightarrow> string" where
  "uriFromHost rest p h = (case p of PathFunction f \<Rightarrow> f h | PathString q \<Rightarrow> baseUri rest h @ q)"

text \<open>An exception caught by \<open>.catch\<close> becomes the \<open>err\<close> argument of the handler.\<close>

definition error_of_exception :: "js_exception \<Rightarrow> error_value" where
  "error_of_exception ex =
     \<lparr>kind = ExceptionKind ex, message = [], code = CodeUndefined, statusCode = None\<rparr>"

definition settle :: "environment \<Rightarrow> got_settled \<Rightarrow> outcome" where
  "settle E g =
     (case g of
        Fulfilled res \<Rightarrow>
          (case handler E None (Some res) (Buffer (res_body res)) of
             Inr args \<Rightarrow> Called args
           | Inl ex \<Rightarrow>
             (case handler E (Some (error_of_exception ex)) None BodyUndefined of
                Inr args \<Rightarrow> Called args
              | Inl ex' \<Rightarrow> Unhandled ex'))
      | RejectedHTTPError res \<Rightarrow>
          (case handler E None (Some res) (Buffer (res_body res)) of
             Inr args \<Rightarrow> Called args
           | Inl ex \<Rightarrow> Unhandled ex)
      | Rejected err \<Rightarrow>
          (case handler E (Some err) None BodyUndefined of
             Inr args \<Rightarrow> Called args
           | Inl ex \<Rightarrow> Unhandled ex))"

text \<open>
  \<open>Http.doUri\<close>, lines 180 to 214: build the options, create the agent pair if there is none,
  send one request and pass what the library settles with to the handler (\<open>settle\<close> is the
  \<open>then\<close>/\<open>catch\<close> chain of lines 205 to 213). \<open>rest\<close> is \<open>None\<close> when the caller
  passes \<open>null\<close>.
\<close>

definition doUri ::
  "environment \<Rightarrow> http_method \<Rightarrow> rest_client option \<Rightarrow> string \<Rightarrow> headers option \<Rightarrow>
   string option \<Rightarrow> (string \<times> string) list option \<Rightarrow> state \<Rightarrow> outcome \<times> state" where
  "doUri E method rest uri headers body params s =
     (let agentOptions =
            (case rest of
               Some r \<Rightarrow> (case restAgentOptions r of Some ao \<Rightarrow> ao | None \<Rightarrow> default_restAgentOptions E)
             | None \<Rightarrow> default_restAgentOptions E);
          agent' = (case agent s of
                      None \<Rightarrow> \<lparr>http = agentOptions, https = agentOptions\<rparr>
                    | Some a \<Rightarrow> a);
          doOptions =
            \<lparr>req_method = method, req_url = uri, req_headers = headers, req_body = body,
             req_searchParams = params, req_agent = agent',
             req_timeout = (case rest of Some r \<Rightarrow> httpRequestTimeout r
                            | None \<Rightarrow> default_httpRequestTimeout E)\<rparr>
      in (settle E (got E (length (sent s)) doOptions),
          s\<lparr>agent := Some agent', sent := sent s @ [doOptions]\<rparr>))"

subsection \<open>Host resolution and the dispatcher\<close>

text \<open>\<open>getHosts\<close>, lines 72 to 84; an empty host name is falsy.\<close>

definition getHosts :: "rest_client \<Rightarrow> string list" where
  "getHosts client =
     (case connectionHost client of
        Some h \<Rightarrow> if h \<noteq> [] then [h] @ defaults_getFallbackHosts client else defaults_getHosts client
      | None \<Rightarrow> defaults_getHosts client)"

text \<open>\<open>Array.prototype.shift\<close>: the first element (\<open>undefined\<close> if there is none) and the
  array that remains.\<close>

definition shift :: "'a list \<Rightarrow> 'a option \<times> 'a list" where
  "shift xs = (case xs of [] \<Rightarrow> (None, []) | x # r \<Rightarrow> (Some x, r))"

text \<open>\<open>err && shouldFallback(err)\<close>, lines 137 and 163.\<close>

definition retryable :: "callback_args \<Rightarrow> bool" where
  "retryable args = (case callback_err args of Some e \<Rightarrow> shouldFallback e | None \<Rightarrow> False)"

text \<open>\<open>tryAHost\<close>, lines 160 to 176.\<close>

function tryAHost ::
  "environment \<Rightarrow> rest_client \<Rightarrow> do_args \<Rightarrow> string list \<Rightarrow> bool \<Rightarrow> state \<Rightarrow> outcome \<times> state" where
  "tryAHost E rest a candidateHosts persistOnSuccess s =
     (case shift candidateHosts of
        (h, remaining) \<Rightarrow>
          (case doUri E (arg_method a) (Some rest) (uriFromHost rest (arg_path a) h)
                  (arg_headers a) (arg_body a) (arg_params a) s of
             (Unhandled ex, s') \<Rightarrow> (Unhandled ex, s')
           | (Called args, s') \<Rightarrow>
               if retryable args \<and> remaining \<noteq> [] then tryAHost E rest a remaining True s'
               else (Called args,
                     if persistOnSuccess then
                       s'\<lparr>currentFallback :=
                            Some \<lparr>host = h,
                                  validUntil = now E (length (sent s')) + fallbackRetryTimeout rest\<rparr>\<rparr>
                     else s')))"
  by pat_completeness blast
termination
  by (relation "measure (\<lambda>(E, rest, a, candidateHosts, persistOnSuccess, s). length candidateHosts)")
     (auto simp: shift_def split: list.splits)

text \<open>Lines 152 to 177: resolve the hosts; a single host is tried once, several in turn.\<close>

definition default_sequence :: "environment \<Rightarrow> rest_client \<Rightarrow> do_args \<Rightarrow> state \<Rightarrow> outcome \<times> state" where
  "default_sequence E rest a s =
     (let hosts = getHosts rest in
      if length hosts = 1 then
        doUri E (arg_method a) (Some rest) (uriFromHost rest (arg_path a) (Some (hosts ! 0)))
          (arg_headers a) (arg_body a) (arg_params a) s
      else tryAHost E rest a hosts False s)"

text \<open>\<open>Http.do\<close>, lines 128 to 178.\<close>

function Http_do :: "environment \<Rightarrow> rest_client \<Rightarrow> do_args \<Rightarrow> state \<Rightarrow> outcome \<times> state" where
  "Http_do E rest a s =
     (case currentFallback s of
        Some cf \<Rightarrow>
          if validUntil cf > now E (length (sent s)) then
            (case doUri E (arg_method a) (Some rest) (uriFromHost rest (arg_path a) (host cf))
                    (arg_headers a) (arg_body a) (arg_params a) s of
               (Unhandled ex, s') \<Rightarrow> (Unhandled ex, s')
             | (Called args, s') \<Rightarrow>
                 if retryable args then Http_do E rest a (s'\<lparr>currentFallback := None\<rparr>)
                 else (Called args, s'))
          else default_sequence E rest a (s\<lparr>currentFallback := None\<rparr>)
      | None \<Rightarrow> default_sequence E rest a s)"
  by pat_completeness blast
termination
  by (relation "measure (\<lambda>(E, rest, a, s). if currentFallback s = None then 0 else 1)") auto

declare tryAHost.simps [simp del]

declare Http_do.simps [simp del]

subsection \<open>The connectivity probe\<close>

text \<open>
  \<open>String.prototype.trim\<close> on the text of a buffer. The text is kept as its UTF-8 bytes, so
  the white space and line terminator characters of JavaScript appear as their encodings:
  U+0009 to U+000D, U+0020, U+00A0, U+1680, U+2000 to U+200A, U+2028, U+2029, U+202F, U+205F,
  U+3000 and U+FEFF.
\<close>

definition whitespace :: "string list" where
  "whitespace =
     [[CHR 0x09], [CHR 0x0A], [CHR 0x0B], [CHR 0x0C], [CHR 0x0D], [CHR 0x20],
      [CHR 0xC2, CHR 0xA0], [CHR 0xE1, CHR 0x9A, CHR 0x80],
      [CHR 0xE2, CHR 0x80, CHR 0x80], [CHR 0xE2, CHR 0x80, CHR 0x81],
      [CHR 0xE2, CHR 0x80, CHR 0x82], [CHR 0xE2, CHR 0x80, CHR 0x83],
      [CHR 0xE2, CHR 0x80, CHR 0x84], [CHR 0xE2, CHR 0x80, CHR 0x85],
      [CHR 0xE2, CHR 0x80, CHR 0x86], [CHR 0xE2, CHR 0x80, CHR 0x87],
      [CHR 0xE2, CHR 0x80, CHR 0x88], [CHR 0xE2, CHR 0x80, CHR 0x89],
      [CHR 0xE2, CHR 0x80, CHR 0x8A], [CHR 0xE2, CHR 0x80, CHR 0xA8],
      [CHR 0xE2, CHR 0x80, CHR 0xA9], [CHR 0xE2, CHR 0x80, CHR 0xAF],
      [CHR 0xE2, CHR 0x81, CHR 0x9F], [CHR 0xE3, CHR 0x80, CHR 0x80],
      [CHR 0xEF, CHR 0xBB, CHR 0xBF]]"

function strip_leading :: "string list \<Rightarrow> string \<Rightarrow> string" where
  "strip_leading ws s =
     (case List.find (\<lambda>w. w \<noteq> [] \<and> take (length w) s = w) ws of
        Some w \<Rightarrow> strip_leading ws (drop (length w) s)
      | None \<Rightarrow> s)"
  by pat_completeness blast
termination
proof (relation "measure (\<lambda>(ws, s). length s)")
  show "wf (measure (\<lambda>(ws, s). length s))" by simp
next
  fix ws :: "string list" and s w :: string
  assume "List.find (\<lambda>w. w \<noteq> [] \<and> take (length w) s = w) ws = Some w"
  then have "w \<noteq> []" and "take (length w) s = w"
    by (auto simp: find_Some_iff)
  then have "s \<noteq> []" by auto
  with \<open>w \<noteq> []\<close> show "((ws, drop (length w) s), (ws, s)) \<in> measure (\<lambda>(ws, s). length s)"
    by simp
qed

declare strip_leading.simps [simp del]

definition trim :: "string \<Rightarrow> string" where
  "trim s = rev (strip_leading (map rev whitespace) (rev (strip_leading whitespace s)))"

text \<open>What the probe tells its caller: \<open>callback(null, up)\<close>, or nothing at all when the
  request's callback is never invoked.\<close>

datatype connectivity = Reported "error_value option" bool | NotReported js_exception

text \<open>\<open>Http.getUri\<close>, lines 113 to 115.\<close>

definition getUri ::
  "environment \<Rightarrow> rest_client option \<Rightarrow> string \<Rightarrow> headers option \<Rightarrow>
   (string \<times> string) list option \<Rightarrow> state \<Rightarrow> outcome \<times> state" where
  "getUri E rest uri headers params s = doUri E Get rest uri headers None params s"

text \<open>
  \<open>Http.checkConnectivity\<close>, lines 219 to 224. When \<open>err\<close> is absent the body is the raw
  buffer of the response, whose \<open>toString()\<close> is its text; no other body reaches this point
  without an \<open>err\<close>.
\<close>

definition checkConnectivity :: "environment \<Rightarrow> state \<Rightarrow> connectivity \<times> state" where
  "checkConnectivity E s =
     (let upUrl = internetUpUrl E in
      case getUri E None upUrl None None s of
        (Unhandled ex, s') \<Rightarrow> (NotReported ex, s')
      | (Called args, s') \<Rightarrow>
          (case args of
             CallbackErr err \<Rightarrow> (Reported None False, s')
           | CallbackResponse err responseText h u sc \<Rightarrow>
               (Reported None
                  (err = None \<and> (case responseText of Buffer t \<Rightarrow> trim t = ''yes'' | _ \<Rightarrow> False)),
                s')))"

subsection \<open>Reading the log of requests\<close>

text \<open>The outcome of the \<open>i\<close>-th request of the log: what the HTTP library settled with for
  it, passed through the handler.\<close>

definition outcome_at :: "environment \<Rightarrow> state \<Rightarrow> nat \<Rightarrow> outcome" where
  "outcome_at E s i = settle E (got E i (sent s ! i))"

text \<open>The requests a call added to the log.\<close>

definition added :: "state \<Rightarrow> state \<Rightarrow> request list" where
  "added s s' = drop (length (sent s)) (sent s')"

text \<open>The agent options a call of \<open>doUri\<close> would build a new agent pair from (line 184).\<close>

definition agentOptions_for :: "environment \<Rightarrow> rest_client option \<Rightarrow> agent_options" where
  "agentOptions_for E rest =
     (case rest of
        Some r \<Rightarrow> (case restAgentOptions r of Some ao \<Rightarrow> ao | None \<Rightarrow> default_restAgentOptions E)
      | None \<Rightarrow> default_restAgentOptions E)"

text \<open>The options \<open>doUri\<close> hands to the HTTP library when called in state \<open>s\<close>.\<close>

definition request_of ::
  "environment \<Rightarrow> http_method \<Rightarrow> rest_client option \<Rightarrow> string \<Rightarrow> headers option \<Rightarrow>
   string option \<Rightarrow> (string \<times> string) list option \<Rightarrow> state \<Rightarrow> request" where
  "request_of E method rest uri headers body params s =
     \<lparr>req_method = method, req_url = uri, req_headers = headers, req_body = body,
      req_searchParams = params,
      req_agent = (case agent s of
                     None \<Rightarrow> \<lparr>http = agentOptions_for E rest, https = agentOptions_for E rest\<rparr>
                   | Some a \<Rightarrow> a),
      req_timeout = (case rest of Some r \<Rightarrow> httpRequestTimeout r
                     | None \<Rightarrow> default_httpRequestTimeout E)\<rparr>"

text \<open>The request of a dispatch to one host, and the request of the connectivity probe.\<close>

definition host_request ::
  "environment \<Rightarrow> rest_client \<Rightarrow> do_args \<Rightarrow> state \<Rightarrow> string option \<Rightarrow> request" where
  "host_request E rest a s h =
     request_of E (arg_method a) (Some rest) (uriFromHost rest (arg_path a) h)
       (arg_headers a) (arg_body a) (arg_params a) s"

definition probe_request :: "environment \<Rightarrow> state \<Rightarrow> request" where
  "probe_request E s = request_of E Get None (internetUpUrl E) None None None s"

text \<open>The state once request \<open>r\<close> has been handed to the HTTP library.\<close>

definition after_request :: "state \<Rightarrow> request \<Rightarrow> state" where
  "after_request s r = s\<lparr>agent := Some (req_agent r), sent := sent s @ [r]\<rparr>"

text \<open>The response the HTTP library obtained, if it obtained one.\<close>

definition received :: "got_settled \<Rightarrow> response option" where
  "received g =
     (case g of Fulfilled res \<Rightarrow> Some res | RejectedHTTPError res \<Rightarrow> Some res | Rejected e \<Rightarrow> None)"

text \<open>An outcome that makes the dispatcher move on: a callback with a retryable error.\<close>

definition retryable_outcome :: "outcome \<Rightarrow> bool" where
  "retryable_outcome out = (case out of Called args \<Rightarrow> retryable args | Unhandled ex \<Rightarrow> False)"

text \<open>The agent pair that a request sent from state \<open>s\<close> on behalf of \<open>rest\<close> uses: the
  stored pair if there is one, else a new pair built from the caller's agent options.\<close>

definition agent_in_use :: "environment \<Rightarrow> rest_client option \<Rightarrow> state \<Rightarrow> agent_pair" where
  "agent_in_use E rest s =
     (case agent s of
        None \<Rightarrow> \<lparr>http = agentOptions_for E rest, https = agentOptions_for E rest\<rparr>
      | Some p \<Rightarrow> p)"

section \<open>Scenarios\<close>

text \<open>
  Concrete surroundings for the scenarios of the specification: two hosts \<open>A\<close> and \<open>B\<close>, a
  JSON decoder that knows the two bodies occurring in the scenarios and rejects every other
  text, an HTTP library whose answer is looked up by URL (a URL that is not listed times
  out), and a clock that starts at 1000 and advances by one with every request.
\<close>

definition timed_out :: error_value where
  "timed_out =
     \<lparr>kind = TransportKind, message = ''Timeout awaiting request'', code = CodeStr ''ETIMEDOUT'',
      statusCode = None\<rparr>"

definition scenario_parse :: "string \<Rightarrow> json option" where
  "scenario_parse t =
     (if t = ''{\"ok\":true}'' then Some (JObj [(''ok'', JBool True)])
      else if t = ''{\"error\":{\"message\":\"m\",\"code\":40100,\"statusCode\":401}}'' then
        Some (JObj [(''error'',
                JObj [(''message'', JStr ''m''), (''code'', JNum 40100), (''statusCode'', JNum 401)])])
      else if t = ''null'' then Some JNull
      else None)"

definition got_table :: "(string \<times> got_settled) list \<Rightarrow> nat \<Rightarrow> request \<Rightarrow> got_settled" where
  "got_table table n r = (case map_of table (req_url r) of Some g \<Rightarrow> g | None \<Rightarrow> Rejected timed_out)"

definition scenario_clock :: "nat \<Rightarrow> int" where
  "scenario_clock n = 1000 + int n"

definition scenario_inspect :: "body \<Rightarrow> string" where
  "scenario_inspect b = (case b of Buffer t \<Rightarrow> t | _ \<Rightarrow> ''[object]'')"

definition scenario_env :: "(string \<times> got_settled) list \<Rightarrow> environment" where
  "scenario_env table =
     \<lparr>json_parse = scenario_parse, msgpack_decode = scenario_parse, inspect = scenario_inspect,
      default_restAgentOptions = \<lparr>keepAlive = True, maxSockets = 40\<rparr>,
      default_httpRequestTimeout = 10000, internetUpUrl = ''https://up/is-the-internet-up.txt'',
      got = got_table table, now = scenario_clock\<rparr>"

definition scenario_baseUri :: "string option \<Rightarrow> string" where
  "scenario_baseUri h = ''https://'' @ (case h of Some n \<Rightarrow> n | None \<Rightarrow> ''undefined'')"

definition scenario_client :: rest_client where
  "scenario_client =
     \<lparr>restAgentOptions = None, httpRequestTimeout = 10000, fallbackRetryTimeout = 600000,
      baseUri = scenario_baseUri, connectionHost = None,
      defaults_getFallbackHosts = [''B''], defaults_getHosts = [''A'', ''B'']\<rparr>"

definition scenario_args :: do_args where
  "scenario_args =
     \<lparr>arg_method = Get, arg_path = PathString ''/time'', arg_headers = None, arg_body = None,
      arg_params = None\<rparr>"

definition initial_state :: state where
  "initial_state = \<lparr>currentFallback = None, agent = None, sent = []\<rparr>"

definition json_headers :: headers where
  "json_headers = [(''content-type'', ''application/json'')]"

definition ok_response :: response where
  "ok_response = \<lparr>res_statusCode = 200, res_headers = json_headers, res_body = ''{\"ok\":true}''\<rparr>"

definition malformed_response :: response where
  "malformed_response = \<lparr>res_statusCode = 400, res_headers = json_headers, res_body = ''{''\<rparr>"

definition unauthorized_response :: response where
  "unauthorized_response =
     \<lparr>res_statusCode = 401, res_headers = json_headers,
      res_body = ''{\"error\":{\"message\":\"m\",\"code\":40100,\"statusCode\":401}}''\<rparr>"

definition up_response :: "string \<Rightarrow> response" where
  "up_response t =
     \<lparr>res_statusCode = 200, res_headers = [(''content-type'', ''text/plain'')], res_body = t\<rparr>"

text \<open>A state in which the client remembers host \<open>B\<close> until time 5000.\<close>

definition stored_state :: state where
  "stored_state =
     \<lparr>currentFallback = Some \<lparr>host = Some ''B'', validUntil = 5000\<rparr>, agent = None, sent = []\<rparr>"

text \<open>A state in which the remembered host \<open>B\<close> expired at time 1000.\<close>

definition expired_state :: state where
  "expired_state =
     \<lparr>currentFallback = Some \<lparr>host = Some ''B'', validUntil = 1000\<rparr>, agent = None, sent = []\<rparr>"

text \<open>A pair of agents as the scenario builds them, and a client with agent options of its
  own.\<close>

definition scenario_agents :: agent_pair where
  "scenario_agents =
     \<lparr>http = \<lparr>keepAlive = True, maxSockets = 40\<rparr>, https = \<lparr>keepAlive = True, maxSockets = 40\<rparr>\<rparr>"

definition other_client :: rest_client where
  "other_client = scenario_client\<lparr>restAgentOptions := Some \<lparr>keepAlive = False, maxSockets = 1\<rparr>\<rparr>"

text \<open>The requests of the scenario to hosts \<open>A\<close> and \<open>B\<close>.\<close>

definition scenario_request :: "string \<Rightarrow> request" where
  "scenario_request h =
     \<lparr>req_method = Get, req_url = ''https://'' @ h @ ''/time'', req_headers = None,
      req_body = None, req_searchParams = None, req_agent = scenario_agents,
      req_timeout = 10000\<rparr>"

text \<open>The callback arguments that the responses of the scenario lead to.\<close>

definition unauthorized_error :: error_value where
  "unauthorized_error =
     \<lparr>kind = ErrorInfoKind, message = ''m'', code = CodeNum 40100, statusCode = Some 401\<rparr>"

definition unauthorized_args :: callback_args where
  "unauthorized_args =
     CallbackResponse (Some unauthorized_error)
       (Decoded (JObj [(''error'',
          JObj [(''message'', JStr ''m''), (''code'', JNum 40100), (''statusCode'', JNum 401)])]))
       json_headers True 401"

definition ok_args :: callback_args where
  "ok_args = CallbackResponse None (Buffer ''{\"ok\":true}'') json_headers False 200"

section \<open>Retryability classification\<close>

lemma shouldFallback_codes:
  "(\<exists>c. code err = CodeStr c \<and> c \<in> set network_failure_codes) =
     (code err = CodeStr ''ENETUNREACH'' \<or> code err = CodeStr ''EHOSTUNREACH'' \<or>
      code err = CodeStr ''EHOSTDOWN'' \<or> code err = CodeStr ''ETIMEDOUT'' \<or>
      code err = CodeStr ''ESOCKETTIMEDOUT'' \<or> code err = CodeStr ''ENOTFOUND'' \<or>
      code err = CodeStr ''ECONNRESET'' \<or> code err = CodeStr ''ECONNREFUSED'')"
  unfolding network_failure_codes_def by (cases "code err") auto

lemma shouldFallback_status:
  "(\<exists>sc. statusCode err = Some sc \<and> 500 \<le> sc \<and> sc \<le> 504) =
     (case statusCode err of None \<Rightarrow> False | Some sc \<Rightarrow> sc \<ge> 500 \<and> sc \<le> 504)"
  by (cases "statusCode err") auto

lemma shouldFallback_spec:
  "shouldFallback err =
     ((\<exists>c. code err = CodeStr c \<and> c \<in> set network_failure_codes) \<or>
      (\<exists>sc. statusCode err = Some sc \<and> 500 \<le> sc \<and> sc \<le> 504))"
  unfolding shouldFallback_codes shouldFallback_status shouldFallback_def Let_def
  by (simp only: disj_assoc)

text \<open>
  Claim C2. For every error value, \<open>shouldFallback\<close> is true exactly when the code is one of
  the eight recognised network-failure codes or the status code lies in the inclusive range
  500 to 504. In particular a status code of 404 or 401 never makes an error retryable: such
  an error is retryable only if its code is a network-failure code, and not at all when its
  code is a number or absent.
\<close>

theorem shouldFallback_iff:
  "shouldFallback err =
     ((\<exists>c. code err = CodeStr c \<and> c \<in> set network_failure_codes) \<or>
      (\<exists>sc. statusCode err = Some sc \<and> 500 \<le> sc \<and> sc \<le> 504))
   \<and> shouldFallback (err\<lparr>statusCode := Some 404\<rparr>) =
       (\<exists>c. code err = CodeStr c \<and> c \<in> set network_failure_codes)
   \<and> shouldFallback (err\<lparr>statusCode := Some 401\<rparr>) =
       (\<exists>c. code err = CodeStr c \<and> c \<in> set network_failure_codes)
   \<and> \<not> shouldFallback \<lparr>kind = k, message = m, code = CodeNum n, statusCode = Some 404\<rparr>
   \<and> \<not> shouldFallback \<lparr>kind = k, message = m, code = CodeNum n, statusCode = Some 401\<rparr>
   \<and> \<not> shouldFallback \<lparr>kind = k, message = m, code = CodeUndefined, statusCode = Some 404\<rparr>
   \<and> \<not> shouldFallback \<lparr>kind = k, message = m, code = CodeUndefined, statusCode = Some 401\<rparr>"
proof (intro conjI)
  show "shouldFallback err =
     ((\<exists>c. code err = CodeStr c \<and> c \<in> set network_failure_codes) \<or>
      (\<exists>sc. statusCode err = Some sc \<and> 500 \<le> sc \<and> sc \<le> 504))"
    by (rule shouldFallback_spec)
  show "shouldFallback (err\<lparr>statusCode := Some 404\<rparr>) =
       (\<exists>c. code err = CodeStr c \<and> c \<in> set network_failure_codes)"
    by (simp add: shouldFallback_spec)
  show "shouldFallback (err\<lparr>statusCode := Some 401\<rparr>) =
       (\<exists>c. code err = CodeStr c \<and> c \<in> set network_failure_codes)"
    by (simp add: shouldFallback_spec)
  show "\<not> shouldFallback \<lparr>kind = k, message = m, code = CodeNum n, statusCode = Some 404\<rparr>"
    by (simp add: shouldFallback_def)
  show "\<not> shouldFallback \<lparr>kind = k, message = m, code = CodeNum n, statusCode = Some 401\<rparr>"
    by (simp add: shouldFallback_def)
  show "\<not> shouldFallback \<lparr>kind = k, message = m, code = CodeUndefined, statusCode = Some 404\<rparr>"
    by (simp add: shouldFallback_def)
  show "\<not> shouldFallback \<lparr>kind = k, message = m, code = CodeUndefined, statusCode = Some 401\<rparr>"
    by (simp add: shouldFallback_def)
qed

section \<open>The response handler\<close>

lemma scenario_env_simps:
  "json_parse (scenario_env t) = scenario_parse"
  "msgpack_decode (scenario_env t) = scenario_parse"
  "inspect (scenario_env t) = scenario_inspect"
  "got (scenario_env t) = got_table t"
  "now (scenario_env t) = scenario_clock"
  "internetUpUrl (scenario_env t) = ''https://up/is-the-internet-up.txt''"
  "default_httpRequestTimeout (scenario_env t) = 10000"
  "default_restAgentOptions (scenario_env t) = \<lparr>keepAlive = True, maxSockets = 40\<rparr>"
  by (simp_all add: scenario_env_def)

lemma handler_below_300:
  "res_statusCode res < 300 \<Longrightarrow>
   handler E None (Some res) b = Inr (CallbackResponse None b (res_headers res) False (res_statusCode res))"
  by (simp add: handler_def Let_def)

lemma handler_err: "handler E (Some e) res b = Inr (CallbackErr e)"
  by (simp add: handler_def)

text \<open>
  Claim C3, as amended. For every response with a status code below 300 the handler invokes
  the callback with no error, the body exactly as it was given (the raw buffer, whatever the
  content type says), the headers, \<open>false\<close> and the status code. Decoding happens only on
  the branch for status codes of 300 and above.
\<close>

theorem handler_success_raw:
  assumes "res_statusCode res < 300"
  shows "handler E None (Some res) b =
           Inr (CallbackResponse None b (res_headers res) False (res_statusCode res))
         \<and> settle E (Fulfilled res) =
           Called (CallbackResponse None (Buffer (res_body res)) (res_headers res) False
                     (res_statusCode res))"
  using assms by (simp add: handler_below_300 settle_def)

theorem handler_success_raw_witness:
  "res_statusCode ok_response < 300 \<and>
   handler (scenario_env []) None (Some ok_response) (Buffer ''{\"ok\":true}'') =
     Inr (CallbackResponse None (Buffer ''{\"ok\":true}'') json_headers False 200) \<and>
   settle (scenario_env []) (Fulfilled ok_response) =
     Called (CallbackResponse None (Buffer ''{\"ok\":true}'') json_headers False 200)"
proof -
  have h: "res_statusCode ok_response < 300" by (simp add: ok_response_def)
  show ?thesis
    using h handler_success_raw [OF h, of "scenario_env []" "Buffer ''{\"ok\":true}''"]
    by (simp add: ok_response_def)
qed

text \<open>
  Claim C3 as stated fails: a 200 response that declares JSON and carries \<open>{"ok":true}\<close>
  reaches the callback as the raw buffer, not as the decoded object, although the decoder
  accepts the text.
\<close>

theorem handler_success_body_not_decoded:
  "scenario_parse (res_body ok_response) = Some (JObj [(''ok'', JBool True)]) \<and>
   handler (scenario_env []) None (Some ok_response) (Buffer (res_body ok_response)) =
     Inr (CallbackResponse None (Buffer ''{\"ok\":true}'') json_headers False 200) \<and>
   handler (scenario_env []) None (Some ok_response) (Buffer (res_body ok_response)) \<noteq>
     Inr (CallbackResponse None (Decoded (JObj [(''ok'', JBool True)])) json_headers False 200)"
  by (simp add: handler_def ok_response_def scenario_parse_def)

lemma decode_body_json:
  "map_of hs ''content-type'' = Some ''application/json'' \<Longrightarrow>
   decode_body E hs (Buffer t) =
     (case json_parse E t of None \<Rightarrow> Inl SyntaxError | Some v \<Rightarrow> Inr (Decoded v))"
  by (simp add: decode_body_def)

lemma decode_body_msgpack:
  "map_of hs ''content-type'' = Some ''application/x-msgpack'' \<Longrightarrow>
   decode_body E hs (Buffer t) =
     (case msgpack_decode E t of None \<Rightarrow> Inl MsgpackDecodeError | Some v \<Rightarrow> Inr (Decoded v))"
  by (simp add: decode_body_def)

lemma body_error_Decoded:
  "v \<noteq> JNull \<Longrightarrow> body_error (Decoded v) = Inr (property v ''error'')"
  by (cases v) simp_all

lemma kind_ErrorInfo [simp]: "kind (ErrorInfo m c sc) = ErrorInfoKind"
  by (simp add: ErrorInfo_def)

lemma kind_fromValues [simp]: "kind (fromValues v) = ErrorInfoKind"
  by (simp add: fromValues_def)

lemma handler_at_least_300:
  assumes "res_statusCode res \<ge> 300"
    and "decode_body E (res_headers res) b = Inr (Decoded v)"
    and "v \<noteq> JNull"
  shows "\<exists>e. handler E None (Some res) b =
               Inr (CallbackResponse (Some e) (Decoded v) (res_headers res) True (res_statusCode res))
             \<and> kind e = ErrorInfoKind"
  using assms by (simp add: handler_def Let_def body_error_Decoded split: option.split)

lemma handler_decode_throws:
  assumes "res_statusCode res \<ge> 300"
    and "decode_body E (res_headers res) b = Inl ex"
  shows "handler E None (Some res) b = Inl ex"
  using assms by (simp add: handler_def Let_def)

lemma handler_null_body_throws:
  assumes "res_statusCode res \<ge> 300"
    and "decode_body E (res_headers res) b = Inr (Decoded JNull)"
  shows "handler E None (Some res) b = Inl TypeError"
  using assms by (simp add: handler_def Let_def)

text \<open>
  What the handler does with a response of status 300 or above that declares JSON or msgpack,
  by what the decoder makes of the body: a decoded value other than \<open>null\<close> reaches the
  callback together with an \<open>ErrorInfo\<close>; nothing in the handler catches an exception of
  the decoder or of the property access at line 44.
\<close>

lemma handler_error_response:
  assumes status: "res_statusCode res \<ge> 300"
    and ctype: "map_of (res_headers res) ''content-type'' = Some ''application/json''
                  \<and> dec = json_parse E \<and> ex = SyntaxError
                \<or> map_of (res_headers res) ''content-type'' = Some ''application/x-msgpack''
                  \<and> dec = msgpack_decode E \<and> ex = MsgpackDecodeError"
  shows "case dec t of
           None \<Rightarrow> handler E None (Some res) (Buffer t) = Inl ex
         | Some v \<Rightarrow>
             if v = JNull then handler E None (Some res) (Buffer t) = Inl TypeError
             else (\<exists>e. handler E None (Some res) (Buffer t) =
                         Inr (CallbackResponse (Some e) (Decoded v) (res_headers res) True
                                (res_statusCode res))
                       \<and> kind e = ErrorInfoKind)"
proof -
  have dec: "decode_body E (res_headers res) (Buffer t) =
               (case dec t of None \<Rightarrow> Inl ex | Some v \<Rightarrow> Inr (Decoded v))"
    using ctype by (auto simp: decode_body_json decode_body_msgpack)
  show ?thesis
  proof (cases "dec t")
    case None
    with dec status show ?thesis by (simp add: handler_decode_throws)
  next
    case (Some v)
    with dec status show ?thesis
      by (simp add: handler_null_body_throws handler_at_least_300)
  qed
qed

section \<open>The connectivity probe\<close>

lemma settle_Rejected: "settle E (Rejected e) = Called (CallbackErr e)"
  by (simp add: settle_def handler_def)

lemma settle_received_below_300:
  "received g = Some res \<Longrightarrow> res_statusCode res < 300 \<Longrightarrow>
   settle E g = Called (CallbackResponse None (Buffer (res_body res)) (res_headers res) False
                          (res_statusCode res))"
  by (cases g) (simp_all add: received_def settle_def handler_below_300)

lemma handler_error_shape:
  "res_statusCode res \<ge> 300 \<Longrightarrow> handler E None (Some res) b = Inr args \<Longrightarrow>
   \<exists>e b' h sc. args = CallbackResponse (Some e) b' h True sc"
  by (auto simp: handler_def Let_def split: sum.splits option.splits if_splits)

lemma settle_received_at_least_300:
  assumes "received g = Some res" and "res_statusCode res \<ge> 300" and "settle E g = Called args"
  shows "callback_err args \<noteq> None"
proof (cases g)
  case (Fulfilled r)
  with assms have r: "r = res" by (simp add: received_def)
  show ?thesis
  proof (cases "handler E None (Some res) (Buffer (res_body res))")
    case (Inl ex)
    with assms Fulfilled r show ?thesis
      by (auto simp: settle_def handler_def)
  next
    case (Inr a)
    with assms Fulfilled r have "args = a" by (simp add: settle_def)
    with handler_error_shape [OF assms(2) Inr] show ?thesis by auto
  qed
next
  case (RejectedHTTPError r)
  with assms have r: "r = res" by (simp add: received_def)
  show ?thesis
  proof (cases "handler E None (Some res) (Buffer (res_body res))")
    case (Inl ex)
    with assms RejectedHTTPError r show ?thesis by (simp add: settle_def)
  next
    case (Inr a)
    with assms RejectedHTTPError r have "args = a" by (simp add: settle_def)
    with handler_error_shape [OF assms(2) Inr] show ?thesis by auto
  qed
next
  case (Rejected e)
  with assms show ?thesis by (simp add: received_def)
qed

lemma doUri_eq:
  "doUri E m rest uri h b p s =
     (settle E (got E (length (sent s)) (request_of E m rest uri h b p s)),
      after_request s (request_of E m rest uri h b p s))"
  unfolding doUri_def request_of_def after_request_def agentOptions_for_def Let_def by simp

lemma checkConnectivity_unfold:
  "checkConnectivity E s =
     (case settle E (got E (length (sent s)) (probe_request E s)) of
        Unhandled ex \<Rightarrow> NotReported ex
      | Called args \<Rightarrow>
          (case args of
             CallbackErr err \<Rightarrow> Reported None False
           | CallbackResponse err responseText h u sc \<Rightarrow>
               Reported None
                 (err = None \<and> (case responseText of Buffer t \<Rightarrow> trim t = ''yes'' | _ \<Rightarrow> False))),
      after_request s (probe_request E s))"
  by (simp add: checkConnectivity_def getUri_def doUri_eq probe_request_def Let_def
           split: outcome.split callback_args.split)

lemma trim_examples: "trim '' yes \<newline>'' = ''yes''" "trim ''no'' = ''no''"
  by (simp_all add: trim_def whitespace_def strip_leading.simps)

text \<open>
  Claim C8. The probe sends one GET to the up-check URL. Whenever the callback of that request
  is invoked, the probe reports, with \<open>null\<close> as the error argument, and what it reports is
  \<open>true\<close> exactly when a response with a status code below 300 was received and its body,
  trimmed, is \<open>yes\<close>: a received body that trims to anything else reports \<open>false\<close>, a
  request that fails without a response reports \<open>false\<close>, and an error response reports
  \<open>false\<close>. The body \<open>" yes \n"\<close> trims to \<open>yes\<close>, the body \<open>no\<close> does not.
\<close>

theorem checkConnectivity_reports:
  "((fst (checkConnectivity E s) = Reported None True) =
      (\<exists>res. received (got E (length (sent s)) (probe_request E s)) = Some res
             \<and> res_statusCode res < 300 \<and> trim (res_body res) = ''yes''))
   \<and> (\<forall>res. received (got E (length (sent s)) (probe_request E s)) = Some res
            \<and> res_statusCode res < 300 \<longrightarrow>
            fst (checkConnectivity E s) = Reported None (trim (res_body res) = ''yes''))
   \<and> (\<forall>args. settle E (got E (length (sent s)) (probe_request E s)) = Called args \<longrightarrow>
            fst (checkConnectivity E s) =
              Reported None
                (\<exists>res. received (got E (length (sent s)) (probe_request E s)) = Some res
                       \<and> res_statusCode res < 300 \<and> trim (res_body res) = ''yes''))
   \<and> (\<forall>ex. settle E (got E (length (sent s)) (probe_request E s)) = Unhandled ex \<longrightarrow>
            fst (checkConnectivity E s) = NotReported ex)
   \<and> (\<forall>e. got E (length (sent s)) (probe_request E s) = Rejected e \<longrightarrow>
            fst (checkConnectivity E s) = Reported None False)
   \<and> (\<forall>err up. fst (checkConnectivity E s) = Reported err up \<longrightarrow> err = None)
   \<and> sent (snd (checkConnectivity E s)) = sent s @ [probe_request E s]
   \<and> req_method (probe_request E s) = Get \<and> req_url (probe_request E s) = internetUpUrl E
   \<and> trim '' yes \<newline>'' = ''yes'' \<and> trim ''no'' \<noteq> ''yes''"
proof (intro conjI allI impI)
  let ?g = "got E (length (sent s)) (probe_request E s)"
  let ?yes = "\<exists>res. received ?g = Some res \<and> res_statusCode res < 300
                \<and> trim (res_body res) = ''yes''"
  have below: "fst (checkConnectivity E s) = Reported None (trim (res_body res) = ''yes'')"
    if "received ?g = Some res" "res_statusCode res < 300" for res
    using that by (simp add: checkConnectivity_unfold settle_received_below_300)
  have called: "fst (checkConnectivity E s) = Reported None ?yes"
    if args: "settle E ?g = Called args" for args
  proof (cases "received ?g")
    case None
    then obtain e where e: "?g = Rejected e"
      by (cases ?g) (auto simp: received_def)
    then have "fst (checkConnectivity E s) = Reported None False"
      by (simp add: checkConnectivity_unfold settle_Rejected)
    with None show ?thesis by simp
  next
    case (Some res)
    show ?thesis
    proof (cases "res_statusCode res < 300")
      case True
      with Some below [OF Some True] show ?thesis by simp
    next
      case False
      then have high: "res_statusCode res \<ge> 300" by simp
      from settle_received_at_least_300 [OF Some high args]
      have "fst (checkConnectivity E s) = Reported None False"
        using args by (cases args) (simp_all add: checkConnectivity_unfold)
      with Some False show ?thesis by simp
    qed
  qed
  show "fst (checkConnectivity E s) = Reported None (trim (res_body res) = ''yes'')"
    if "received ?g = Some res \<and> res_statusCode res < 300" for res
    using that below by blast
  show "fst (checkConnectivity E s) = Reported None ?yes" if "settle E ?g = Called args" for args
    using that by (rule called)
  show "fst (checkConnectivity E s) = NotReported ex" if "settle E ?g = Unhandled ex" for ex
    using that by (simp add: checkConnectivity_unfold)
  show "fst (checkConnectivity E s) = Reported None False" if "?g = Rejected e" for e
    using that by (simp add: checkConnectivity_unfold settle_Rejected)
  show "err = None" if "fst (checkConnectivity E s) = Reported err up" for err up
    using that by (auto simp: checkConnectivity_unfold split: outcome.splits callback_args.splits)
  show "sent (snd (checkConnectivity E s)) = sent s @ [probe_request E s]"
    by (simp add: checkConnectivity_unfold after_request_def)
  show "req_method (probe_request E s) = Get" "req_url (probe_request E s) = internetUpUrl E"
    by (simp_all add: probe_request_def request_of_def)
  show "trim '' yes \<newline>'' = ''yes''" "trim ''no'' \<noteq> ''yes''"
    by (simp_all add: trim_examples)
  show "(fst (checkConnectivity E s) = Reported None True) = ?yes"
  proof (cases "settle E ?g")
    case (Called args)
    from called [OF Called] show ?thesis by simp
  next
    case (Unhandled ex)
    then have no: "fst (checkConnectivity E s) = NotReported ex"
      by (simp add: checkConnectivity_unfold)
    have "\<not> ?yes"
    proof
      assume ?yes
      then obtain res where "received ?g = Some res" "res_statusCode res < 300" by blast
      from settle_received_below_300 [OF this, of E] Unhandled show False by simp
    qed
    with no show ?thesis by simp
  qed
qed

lemma probe_request_scenario:
  "probe_request (scenario_env t) initial_state =
     \<lparr>req_method = Get, req_url = ''https://up/is-the-internet-up.txt'', req_headers = None,
      req_body = None, req_searchParams = None,
      req_agent = \<lparr>http = \<lparr>keepAlive = True, maxSockets = 40\<rparr>,
                   https = \<lparr>keepAlive = True, maxSockets = 40\<rparr>\<rparr>,
      req_timeout = 10000\<rparr>"
  by (simp add: probe_request_def request_of_def agentOptions_for_def scenario_env_simps
        initial_state_def)

text \<open>The three answers of the scenario: the body \<open>" yes \n"\<close> reports \<open>true\<close>, the
  body \<open>no\<close> reports \<open>false\<close>, and a time-out reports \<open>false\<close>.\<close>

theorem checkConnectivity_reports_witness:
  "fst (checkConnectivity
          (scenario_env [(''https://up/is-the-internet-up.txt'', Fulfilled (up_response '' yes \<newline>''))])
          initial_state) = Reported None True
   \<and> fst (checkConnectivity
          (scenario_env [(''https://up/is-the-internet-up.txt'', Fulfilled (up_response ''no''))])
          initial_state) = Reported None False
   \<and> fst (checkConnectivity (scenario_env []) initial_state) = Reported None False"
proof -
  let ?url = "''https://up/is-the-internet-up.txt''"
  let ?yes = "scenario_env [(?url, Fulfilled (up_response '' yes \<newline>''))]"
  let ?no = "scenario_env [(?url, Fulfilled (up_response ''no''))]"
  have g1: "received (got ?yes (length (sent initial_state)) (probe_request ?yes initial_state))
              = Some (up_response '' yes \<newline>'')"
    by (simp add: probe_request_scenario scenario_env_simps got_table_def received_def)
  have g2: "received (got ?no (length (sent initial_state)) (probe_request ?no initial_state))
              = Some (up_response ''no'')"
    by (simp add: probe_request_scenario scenario_env_simps got_table_def received_def)
  have g3: "got (scenario_env []) (length (sent initial_state))
              (probe_request (scenario_env []) initial_state) = Rejected timed_out"
    by (simp add: scenario_env_simps got_table_def)
  have b1: "res_statusCode (up_response '' yes \<newline>'') < 300"
    and t1: "trim (res_body (up_response '' yes \<newline>'')) = ''yes''"
    by (simp_all add: up_response_def trim_examples)
  have b2: "res_statusCode (up_response ''no'') < 300"
    and t2: "trim (res_body (up_response ''no'')) \<noteq> ''yes''"
    by (simp_all add: up_response_def trim_examples)
  from checkConnectivity_reports [of ?yes initial_state] g1 b1
  have "fst (checkConnectivity ?yes initial_state) =
          Reported None (trim (res_body (up_response '' yes \<newline>'')) = ''yes'')"
    by blast
  with t1 have r1: "fst (checkConnectivity ?yes initial_state) = Reported None True" by simp
  from checkConnectivity_reports [of ?no initial_state] g2 b2
  have "fst (checkConnectivity ?no initial_state) =
          Reported None (trim (res_body (up_response ''no'')) = ''yes'')"
    by blast
  with t2 have r2: "fst (checkConnectivity ?no initial_state) = Reported None False" by simp
  from checkConnectivity_reports [of "scenario_env []" initial_state] g3
  have r3: "fst (checkConnectivity (scenario_env []) initial_state) = Reported None False" by blast
  from r1 r2 r3 show ?thesis by (intro conjI)
qed

section \<open>One request\<close>

lemma after_request_simps [simp]:
  "sent (after_request s r) = sent s @ [r]"
  "agent (after_request s r) = Some (req_agent r)"
  "currentFallback (after_request s r) = currentFallback s"
  by (simp_all add: after_request_def)

lemma agent_in_use_simps [simp]:
  "agent_in_use E rest (after_request s r) = req_agent r"
  "agent_in_use E rest (s\<lparr>currentFallback := f\<rparr>) = agent_in_use E rest s"
  "agent_in_use E rest (s\<lparr>agent := Some pair\<rparr>) = pair"
  by (simp_all add: agent_in_use_def)

lemma request_of_simps [simp]:
  "req_url (request_of E m rest uri h b p s) = uri"
  "req_method (request_of E m rest uri h b p s) = m"
  "req_agent (request_of E m rest uri h b p s) = agent_in_use E rest s"
  by (simp_all add: request_of_def agent_in_use_def)

lemma host_request_simps [simp]:
  "req_url (host_request E rest a s h) = uriFromHost rest (arg_path a) h"
  "req_agent (host_request E rest a s h) = agent_in_use E (Some rest) s"
  by (simp_all add: host_request_def)

text \<open>The state matters to a request only through the agent pair.\<close>

lemma host_request_cong:
  "agent s = agent t \<Longrightarrow> host_request E rest a s h = host_request E rest a t h"
  by (simp add: host_request_def request_of_def)

section \<open>The attempt sequence\<close>

lemma tryAHost_Cons:
  "tryAHost E rest a (h # hs) p s =
     (case settle E (got E (length (sent s)) (host_request E rest a s (Some h))) of
        Unhandled ex \<Rightarrow> (Unhandled ex, after_request s (host_request E rest a s (Some h)))
      | Called args \<Rightarrow>
          if retryable args \<and> hs \<noteq> []
          then tryAHost E rest a hs True (after_request s (host_request E rest a s (Some h)))
          else (Called args,
                if p then
                  (after_request s (host_request E rest a s (Some h)))
                    \<lparr>currentFallback :=
                       Some \<lparr>host = Some h,
                             validUntil = now E (Suc (length (sent s))) + fallbackRetryTimeout rest\<rparr>\<rparr>
                else after_request s (host_request E rest a s (Some h))))"
  by (subst tryAHost.simps)
     (simp add: shift_def doUri_eq host_request_def split: outcome.split)

lemma tryAHost_Nil:
  "tryAHost E rest a [] p s =
     (case settle E (got E (length (sent s)) (host_request E rest a s None)) of
        Unhandled ex \<Rightarrow> (Unhandled ex, after_request s (host_request E rest a s None))
      | Called args \<Rightarrow>
          (Called args,
           if p then
             (after_request s (host_request E rest a s None))
               \<lparr>currentFallback :=
                  Some \<lparr>host = None,
                        validUntil = now E (Suc (length (sent s))) + fallbackRetryTimeout rest\<rparr>\<rparr>
           else after_request s (host_request E rest a s None)))"
  by (subst tryAHost.simps)
     (simp add: shift_def doUri_eq host_request_def split: outcome.split)

text \<open>
  What a run of \<open>tryAHost\<close> over a non-empty list does: the requests it sends, host by host
  from the front of the list; the outcome of every request but the last is a retryable error;
  the outcome of the last request is the outcome of the run.
\<close>

lemma tryAHost_run:
  assumes "tryAHost E rest a (h # hs) p s = (out, s')"
  shows "\<exists>reqs. sent s' = sent s @ reqs \<and> reqs \<noteq> [] \<and> length reqs \<le> Suc (length hs)
          \<and> map req_url reqs =
              map (\<lambda>x. uriFromHost rest (arg_path a) (Some x)) (take (length reqs) (h # hs))
          \<and> (\<forall>i < length reqs - 1.
                retryable_outcome (settle E (got E (length (sent s) + i) (reqs ! i))))
          \<and> settle E (got E (length (sent s) + (length reqs - 1)) (last reqs)) = out
          \<and> (length reqs < Suc (length hs) \<longrightarrow> \<not> retryable_outcome out)"
  using assms
proof (induction hs arbitrary: h p s)
  case Nil
  let ?r = "host_request E rest a s (Some h)"
  from Nil have "sent s' = sent s @ [?r]" and "settle E (got E (length (sent s)) ?r) = out"
    by (auto simp: tryAHost_Cons split: outcome.splits if_splits)
  then show ?case
    by (intro exI [of _ "[?r]"]) simp
next
  case (Cons h2 hs)
  let ?r = "host_request E rest a s (Some h)"
  let ?s1 = "after_request s ?r"
  let ?o1 = "settle E (got E (length (sent s)) ?r)"
  show ?case
  proof (cases "retryable_outcome ?o1")
    case True
    then obtain args where o1: "?o1 = Called args" and re: "retryable args"
      by (auto simp: retryable_outcome_def split: outcome.splits)
    with Cons.prems have rec: "tryAHost E rest a (h2 # hs) True ?s1 = (out, s')"
      by (simp add: tryAHost_Cons)
    from Cons.IH [OF rec] obtain reqs where
      sent: "sent s' = sent ?s1 @ reqs" and ne: "reqs \<noteq> []"
      and len: "length reqs \<le> Suc (length hs)"
      and urls: "map req_url reqs =
              map (\<lambda>x. uriFromHost rest (arg_path a) (Some x)) (take (length reqs) (h2 # hs))"
      and mid: "\<forall>i < length reqs - 1.
                retryable_outcome (settle E (got E (length (sent ?s1) + i) (reqs ! i)))"
      and fin: "settle E (got E (length (sent ?s1) + (length reqs - 1)) (last reqs)) = out"
      and early: "length reqs < Suc (length hs) \<longrightarrow> \<not> retryable_outcome out"
      by blast
    have mid': "\<forall>i < length (?r # reqs) - 1.
                retryable_outcome (settle E (got E (length (sent s) + i) ((?r # reqs) ! i)))"
    proof (intro allI impI)
      fix i assume i: "i < length (?r # reqs) - 1"
      show "retryable_outcome (settle E (got E (length (sent s) + i) ((?r # reqs) ! i)))"
      proof (cases i)
        case 0
        with True show ?thesis by simp
      next
        case (Suc j)
        with i ne have "j < length reqs - 1" by (cases reqs) auto
        with mid have "retryable_outcome (settle E (got E (length (sent ?s1) + j) (reqs ! j)))"
          by blast
        with Suc show ?thesis by simp
      qed
    qed
    have fin': "settle E (got E (length (sent s) + (length (?r # reqs) - 1)) (last (?r # reqs))) = out"
      using fin ne by (cases reqs) auto
    have "sent s' = sent s @ (?r # reqs)" using sent by simp
    moreover have "length (?r # reqs) \<le> Suc (length (h2 # hs))" using len by simp
    moreover have "map req_url (?r # reqs) =
              map (\<lambda>x. uriFromHost rest (arg_path a) (Some x))
                (take (length (?r # reqs)) (h # h2 # hs))"
      using urls by simp
    moreover have "length (?r # reqs) < Suc (length (h2 # hs)) \<longrightarrow> \<not> retryable_outcome out"
      using early by simp
    ultimately show ?thesis
      using mid' fin' by (intro exI [of _ "?r # reqs"]) simp
  next
    case False
    with Cons.prems have "sent s' = sent s @ [?r]" and "?o1 = out"
      by (auto simp: tryAHost_Cons retryable_outcome_def split: outcome.splits if_splits)
    with False show ?thesis
      by (intro exI [of _ "[?r]"]) simp
  qed
qed

section \<open>The scenarios, evaluated\<close>

lemma scenario_host_request:
  "agent s = None \<or> agent s = Some scenario_agents \<Longrightarrow>
   host_request (scenario_env t) scenario_client scenario_args s (Some h) = scenario_request h"
  by (auto simp: host_request_def request_of_def scenario_client_def scenario_args_def
        scenario_request_def uriFromHost_def scenario_baseUri_def agentOptions_for_def
        scenario_env_simps scenario_agents_def)

lemma got_table_scenario:
  "got_table t n (scenario_request h) =
     (case map_of t (''https://'' @ h @ ''/time'') of Some g \<Rightarrow> g | None \<Rightarrow> Rejected timed_out)"
  by (simp add: got_table_def scenario_request_def)

lemma retryable_timed_out: "retryable (CallbackErr timed_out)"
  by (simp add: retryable_def timed_out_def shouldFallback_def)

lemma settle_unauthorized:
  "settle (scenario_env t) (RejectedHTTPError unauthorized_response) = Called unauthorized_args"
  by (simp add: settle_def handler_def unauthorized_response_def decode_body_def json_headers_def
        scenario_env_simps scenario_parse_def fromValues_def ErrorInfo_def unauthorized_args_def
        unauthorized_error_def)

lemma settle_ok: "settle (scenario_env t) (Fulfilled ok_response) = Called ok_args"
  by (simp add: settle_def handler_def ok_response_def ok_args_def)

lemma retryable_scenario_args:
  "\<not> retryable unauthorized_args" "\<not> retryable ok_args"
  by (simp_all add: retryable_def unauthorized_args_def unauthorized_error_def ok_args_def
        shouldFallback_def)

lemma req_agent_scenario [simp]: "req_agent (scenario_request h) = scenario_agents"
  by (simp add: scenario_request_def)

lemma scenario_client_simps:
  "fallbackRetryTimeout scenario_client = 600000"
  "getHosts scenario_client = [''A'', ''B'']"
  by (simp_all add: scenario_client_def getHosts_def)

text \<open>In the scenario, host \<open>A\<close> times out and host \<open>B\<close> answers as the table says. The
  run over both hosts ends with the outcome of \<open>B\<close>; if the callback is invoked, whatever its
  arguments, host \<open>B\<close> is stored.\<close>

lemma scenario_two_hosts:
  assumes ag: "agent s = None \<or> agent s = Some scenario_agents"
    and a: "map_of t ''https://A/time'' = None"
    and b: "settle (scenario_env t)
              (case map_of t ''https://B/time'' of Some g \<Rightarrow> g | None \<Rightarrow> Rejected timed_out)
            = Called args"
  shows "tryAHost (scenario_env t) scenario_client scenario_args [''A'', ''B''] False s =
     (Called args,
      \<lparr>currentFallback =
         Some \<lparr>host = Some ''B'', validUntil = 601002 + int (length (sent s))\<rparr>,
       agent = Some scenario_agents,
       sent = sent s @ [scenario_request ''A'', scenario_request ''B'']\<rparr>)"
proof -
  let ?E = "scenario_env t"
  let ?s1 = "after_request s (scenario_request ''A'')"
  have first: "tryAHost ?E scenario_client scenario_args [''A'', ''B''] False s =
               tryAHost ?E scenario_client scenario_args [''B''] True ?s1"
    using ag a
    by (simp add: tryAHost_Cons [of _ _ _ "''A''"] scenario_host_request
          scenario_env_simps got_table_scenario settle_Rejected retryable_timed_out)
  have ag1: "agent ?s1 = None \<or> agent ?s1 = Some scenario_agents" by simp
  have gotB: "got ?E (length (sent ?s1)) (scenario_request ''B'') =
      (case map_of t ''https://B/time'' of Some g \<Rightarrow> g | None \<Rightarrow> Rejected timed_out)"
    by (simp add: scenario_env_simps got_table_scenario)
  have second: "tryAHost ?E scenario_client scenario_args [''B''] True ?s1 =
     (Called args,
      (after_request ?s1 (scenario_request ''B''))
        \<lparr>currentFallback :=
           Some \<lparr>host = Some ''B'',
                 validUntil = now ?E (Suc (length (sent ?s1))) + fallbackRetryTimeout scenario_client\<rparr>\<rparr>)"
    unfolding tryAHost_Cons [of _ _ _ "''B''"] scenario_host_request [OF ag1] gotB b
    by simp
  show ?thesis
    unfolding first second
    by (simp add: after_request_def scenario_env_simps scenario_clock_def scenario_client_simps)
qed

lemma tryAHost_sent:
  "\<exists>reqs. sent (snd (tryAHost E rest a hs p s)) = sent s @ reqs \<and> reqs \<noteq> []
          \<and> length reqs \<le> max 1 (length hs)
          \<and> (\<forall>r \<in> set reqs. req_agent r = agent_in_use E (Some rest) s)
          \<and> agent (snd (tryAHost E rest a hs p s)) = Some (agent_in_use E (Some rest) s)"
proof (induction hs arbitrary: p s)
  case Nil
  show ?case
    by (intro exI [of _ "[host_request E rest a s None]"])
       (simp add: tryAHost_Nil split: outcome.split)
next
  case (Cons h hs)
  let ?r = "host_request E rest a s (Some h)"
  let ?s1 = "after_request s ?r"
  have agent1: "agent_in_use E (Some rest) ?s1 = agent_in_use E (Some rest) s"
    by simp
  show ?case
  proof (cases "retryable_outcome (settle E (got E (length (sent s)) ?r)) \<and> hs \<noteq> []")
    case True
    then have pos: "1 \<le> length hs" by (cases hs) auto
    from True have eq: "tryAHost E rest a (h # hs) p s = tryAHost E rest a hs True ?s1"
      by (auto simp: tryAHost_Cons retryable_outcome_def split: outcome.splits)
    from Cons.IH [of True ?s1] obtain reqs where
      "sent (snd (tryAHost E rest a hs True ?s1)) = sent ?s1 @ reqs" "reqs \<noteq> []"
      "length reqs \<le> max 1 (length hs)"
      "\<forall>r \<in> set reqs. req_agent r = agent_in_use E (Some rest) ?s1"
      "agent (snd (tryAHost E rest a hs True ?s1)) = Some (agent_in_use E (Some rest) ?s1)"
      by blast
    with pos show ?thesis
      unfolding eq agent1
      by (intro exI [of _ "?r # reqs"]) auto
  next
    case False
    then have "snd (tryAHost E rest a (h # hs) p s) = ?s1
        \<or> (\<exists>f. snd (tryAHost E rest a (h # hs) p s) = ?s1\<lparr>currentFallback := f\<rparr>)"
      by (auto simp: tryAHost_Cons retryable_outcome_def split: outcome.splits)
    then show ?thesis
      by (intro exI [of _ "[?r]"]) auto
  qed
qed

section \<open>The dispatcher\<close>

lemma Http_do_cold:
  "currentFallback s = None \<Longrightarrow> Http_do E rest a s = default_sequence E rest a s"
  by (subst Http_do.simps) simp

lemma Http_do_expired:
  "currentFallback s = Some cf \<Longrightarrow> validUntil cf \<le> now E (length (sent s)) \<Longrightarrow>
   Http_do E rest a s = default_sequence E rest a (s\<lparr>currentFallback := None\<rparr>)"
  by (subst Http_do.simps) simp

lemma Http_do_stored:
  assumes "currentFallback s = Some cf" and "validUntil cf > now E (length (sent s))"
  shows "Http_do E rest a s =
     (if retryable_outcome (settle E (got E (length (sent s)) (host_request E rest a s (host cf))))
      then Http_do E rest a
             ((after_request s (host_request E rest a s (host cf)))\<lparr>currentFallback := None\<rparr>)
      else (settle E (got E (length (sent s)) (host_request E rest a s (host cf))),
            after_request s (host_request E rest a s (host cf))))"
  using assms
  by (subst Http_do.simps)
     (simp add: doUri_eq host_request_def retryable_outcome_def split: outcome.split)

lemma default_sequence_sent:
  "\<exists>reqs. sent (snd (default_sequence E rest a s)) = sent s @ reqs \<and> reqs \<noteq> []
          \<and> length reqs \<le> max 1 (length (getHosts rest))
          \<and> (\<forall>r \<in> set reqs. req_agent r = agent_in_use E (Some rest) s)
          \<and> agent (snd (default_sequence E rest a s)) = Some (agent_in_use E (Some rest) s)"
proof (cases "length (getHosts rest) = 1")
  case True
  let ?r = "host_request E rest a s (Some (getHosts rest ! 0))"
  from True have "default_sequence E rest a s =
      (settle E (got E (length (sent s)) ?r), after_request s ?r)"
    by (simp add: default_sequence_def doUri_eq host_request_def Let_def)
  then show ?thesis
    by (intro exI [of _ "[?r]"]) simp
next
  case False
  then have "default_sequence E rest a s = tryAHost E rest a (getHosts rest) False s"
    by (simp add: default_sequence_def)
  with tryAHost_sent [of E rest a "getHosts rest" False s] show ?thesis by simp
qed

lemma Http_do_sent:
  "\<exists>reqs. sent (snd (Http_do E rest a s)) = sent s @ reqs \<and> reqs \<noteq> []
          \<and> length reqs \<le> 1 + max 1 (length (getHosts rest))
          \<and> (\<forall>r \<in> set reqs. req_agent r = agent_in_use E (Some rest) s)
          \<and> agent (snd (Http_do E rest a s)) = Some (agent_in_use E (Some rest) s)"
proof (cases "currentFallback s")
  case None
  with default_sequence_sent [of E rest a s] show ?thesis
    by (auto simp: Http_do_cold)
next
  case (Some cf)
  show ?thesis
  proof (cases "validUntil cf > now E (length (sent s))")
    case False
    let ?s0 = "s\<lparr>currentFallback := None\<rparr>"
    have "agent_in_use E (Some rest) ?s0 = agent_in_use E (Some rest) s"
      by simp
    with False Some default_sequence_sent [of E rest a ?s0] show ?thesis
      by (auto simp: Http_do_expired)
  next
    case True
    let ?r = "host_request E rest a s (host cf)"
    let ?s1 = "(after_request s ?r)\<lparr>currentFallback := None\<rparr>"
    show ?thesis
    proof (cases "retryable_outcome (settle E (got E (length (sent s)) ?r))")
      case False
      with True Some have "snd (Http_do E rest a s) = after_request s ?r"
        by (simp add: Http_do_stored)
      then show ?thesis
        by (intro exI [of _ "[?r]"]) simp
    next
      case retry: True
      with True Some have eq: "Http_do E rest a s = default_sequence E rest a ?s1"
        by (simp add: Http_do_stored Http_do_cold)
      have agent1: "agent_in_use E (Some rest) ?s1 = agent_in_use E (Some rest) s"
        by simp
      from default_sequence_sent [of E rest a ?s1] obtain reqs where
        "sent (snd (default_sequence E rest a ?s1)) = sent ?s1 @ reqs" "reqs \<noteq> []"
        "length reqs \<le> max 1 (length (getHosts rest))"
        "\<forall>r \<in> set reqs. req_agent r = agent_in_use E (Some rest) ?s1"
        "agent (snd (default_sequence E rest a ?s1)) = Some (agent_in_use E (Some rest) ?s1)"
        by blast
      then show ?thesis
        unfolding eq agent1
        by (intro exI [of _ "?r # reqs"]) auto
    qed
  qed
qed

section \<open>Delivery of errors by the attempt sequence\<close>

lemma added_append: "sent s' = sent s @ reqs \<Longrightarrow> added s s' = reqs"
  by (simp add: added_def)

text \<open>
  Claim C5. A run of \<open>tryAHost\<close> over a non-empty host list makes \<open>k\<close> requests, to the
  first \<open>k\<close> hosts in order. Every request before the last ended in a retryable error, which
  the caller never sees; the outcome handed to the caller is exactly the outcome of the last
  request; and that outcome is a retryable error only if the list is exhausted
  (\<open>k = length hosts\<close>). So an error that is not retryable ends the run where it first occurs,
  with no further host tried.
\<close>

theorem tryAHost_delivery:
  assumes "hosts \<noteq> []" and "tryAHost E rest a hosts p s = (out, s')"
  shows "\<exists>k. 1 \<le> k \<and> k \<le> length hosts
           \<and> sent s' = sent s @ added s s' \<and> length (added s s') = k
           \<and> map req_url (added s s') =
               map (\<lambda>h. uriFromHost rest (arg_path a) (Some h)) (take k hosts)
           \<and> (\<forall>i < k - 1. retryable_outcome (outcome_at E s' (length (sent s) + i)))
           \<and> out = outcome_at E s' (length (sent s) + (k - 1))
           \<and> (retryable_outcome out \<longrightarrow> k = length hosts)"
proof -
  from assms(1) obtain h hs where hosts: "hosts = h # hs" by (cases hosts) auto
  from tryAHost_run [OF assms(2) [unfolded hosts]] obtain reqs where
    sent: "sent s' = sent s @ reqs" and ne: "reqs \<noteq> []"
    and len: "length reqs \<le> Suc (length hs)"
    and urls: "map req_url reqs =
              map (\<lambda>x. uriFromHost rest (arg_path a) (Some x)) (take (length reqs) (h # hs))"
    and mid: "\<forall>i < length reqs - 1.
                retryable_outcome (settle E (got E (length (sent s) + i) (reqs ! i)))"
    and fin: "settle E (got E (length (sent s) + (length reqs - 1)) (last reqs)) = out"
    and early: "length reqs < Suc (length hs) \<longrightarrow> \<not> retryable_outcome out"
    by blast
  have added: "added s s' = reqs" using sent by (rule added_append)
  have at: "outcome_at E s' (length (sent s) + i) = settle E (got E (length (sent s) + i) (reqs ! i))"
    for i
    by (simp add: outcome_at_def sent)
  have lastr: "last reqs = reqs ! (length reqs - 1)" using ne by (simp add: last_conv_nth)
  have k1: "1 \<le> length reqs" using ne by (cases reqs) auto
  have k2: "length reqs \<le> length hosts" using len hosts by simp
  have k3: "sent s' = sent s @ added s s'" unfolding added by (rule sent)
  have k4: "length (added s s') = length reqs" unfolding added by (rule refl)
  have k5: "map req_url (added s s') =
               map (\<lambda>h. uriFromHost rest (arg_path a) (Some h)) (take (length reqs) hosts)"
    unfolding added hosts by (rule urls)
  have k6: "\<forall>i < length reqs - 1. retryable_outcome (outcome_at E s' (length (sent s) + i))"
    unfolding at by (rule mid)
  have k7: "out = outcome_at E s' (length (sent s) + (length reqs - 1))"
    unfolding at lastr [symmetric] by (rule fin [symmetric])
  have k8: "retryable_outcome out \<longrightarrow> length reqs = length hosts"
    using early len hosts by auto
  show ?thesis
    by (rule exI [of _ "length reqs"]) (intro conjI k1 k2 k3 k4 k5 k6 k7 k8)
qed

text \<open>The scenario in which both hosts time out: the caller receives the time-out of the
  last host once the list is exhausted.\<close>

theorem tryAHost_delivery_witness:
  "[''A'', ''B''] \<noteq> []
   \<and> tryAHost (scenario_env []) scenario_client scenario_args [''A'', ''B''] False initial_state =
       (Called (CallbackErr timed_out),
        \<lparr>currentFallback = Some \<lparr>host = Some ''B'', validUntil = 601002\<rparr>,
         agent = Some scenario_agents, sent = [scenario_request ''A'', scenario_request ''B'']\<rparr>)
   \<and> (\<exists>k. 1 \<le> k \<and> k \<le> length [''A'', ''B'']
         \<and> retryable_outcome (Called (CallbackErr timed_out)) \<and> k = length [''A'', ''B''])"
proof -
  let ?s' = "\<lparr>currentFallback = Some \<lparr>host = Some ''B'', validUntil = 601002\<rparr>,
         agent = Some scenario_agents, sent = [scenario_request ''A'', scenario_request ''B'']\<rparr>"
  have ne: "[''A'', ''B''] \<noteq> []" by simp
  have run: "tryAHost (scenario_env []) scenario_client scenario_args [''A'', ''B''] False
               initial_state = (Called (CallbackErr timed_out), ?s')"
    using scenario_two_hosts [of initial_state "[]" "CallbackErr timed_out"]
    by (simp add: initial_state_def settle_Rejected)
  have re: "retryable_outcome (Called (CallbackErr timed_out))"
    by (simp add: retryable_outcome_def retryable_timed_out)
  from tryAHost_delivery [OF ne run] obtain k where
    k: "1 \<le> k" "k \<le> length [''A'', ''B'']"
       "retryable_outcome (Called (CallbackErr timed_out)) \<longrightarrow> k = length [''A'', ''B'']"
    by (elim exE conjE)
  from k(3) re have "k = length [''A'', ''B'']" by (rule mp)
  with k(1,2) re
  have "\<exists>k. 1 \<le> k \<and> k \<le> length [''A'', ''B'']
         \<and> retryable_outcome (Called (CallbackErr timed_out)) \<and> k = length [''A'', ''B'']"
    by (intro exI [of _ k] conjI)
  with ne run show ?thesis by (intro conjI)
qed

section \<open>Persisting a fallback host\<close>

text \<open>
  What \<open>tryAHost\<close> stores. Whenever the run invokes the callback after at least one retry, or
  was started with \<open>persistOnSuccess\<close> set, it stores the last host tried, valid until the
  time of the callback plus \<open>fallbackRetryTimeout\<close>; otherwise it leaves the stored record
  alone. The guard at line 167 looks at \<open>persistOnSuccess\<close> only, not at \<open>err\<close>.
\<close>

lemma tryAHost_currentFallback:
  assumes "tryAHost E rest a (h # hs) p s = (out, s')"
  shows "currentFallback s' =
     (case out of
        Unhandled ex \<Rightarrow> currentFallback s
      | Called args \<Rightarrow>
          if p \<or> length (added s s') > 1
          then Some \<lparr>host = Some ((h # hs) ! (length (added s s') - 1)),
                     validUntil = now E (length (sent s')) + fallbackRetryTimeout rest\<rparr>
          else currentFallback s)"
  using assms
proof (induction hs arbitrary: h p s)
  case Nil
  then show ?case
    by (auto simp: tryAHost_Cons added_def split: outcome.splits if_splits)
next
  case (Cons h2 hs)
  let ?r = "host_request E rest a s (Some h)"
  let ?s1 = "after_request s ?r"
  show ?case
  proof (cases "retryable_outcome (settle E (got E (length (sent s)) ?r))")
    case True
    with Cons.prems have rec: "tryAHost E rest a (h2 # hs) True ?s1 = (out, s')"
      by (auto simp: tryAHost_Cons retryable_outcome_def split: outcome.splits)
    from tryAHost_run [OF rec] obtain reqs where
      sent: "sent s' = sent ?s1 @ reqs" and ne: "reqs \<noteq> []" by blast
    have a1: "added ?s1 s' = reqs" using sent by (rule added_append)
    have a0: "added s s' = ?r # reqs" using sent by (simp add: added_def)
    have idx: "(h # h2 # hs) ! (length (?r # reqs) - 1) = (h2 # hs) ! (length reqs - 1)"
      using ne by (cases reqs) auto
    from Cons.IH [OF rec] show ?thesis
      unfolding a1 a0 idx using ne by (cases out) auto
  next
    case False
    with Cons.prems show ?thesis
      by (auto simp: tryAHost_Cons retryable_outcome_def added_def split: outcome.splits if_splits)
  qed
qed

text \<open>
  Claim C1, at the input where the code departs from it. Host list \<open>[A, B]\<close>, nothing
  stored; \<open>A\<close> times out and \<open>B\<close> answers 401. The caller receives the 401 error, which is
  not retryable, and yet a record for \<open>B\<close> is stored, valid until the time of the callback
  (1002) plus the configured time-to-live (600000).
\<close>

theorem Http_do_stores_after_failure:
  "Http_do (scenario_env [(''https://B/time'', RejectedHTTPError unauthorized_response)])
     scenario_client scenario_args initial_state =
   (Called unauthorized_args,
    \<lparr>currentFallback = Some \<lparr>host = Some ''B'', validUntil = 601002\<rparr>,
     agent = Some scenario_agents, sent = [scenario_request ''A'', scenario_request ''B'']\<rparr>)
   \<and> callback_err unauthorized_args = Some unauthorized_error
   \<and> \<not> shouldFallback unauthorized_error"
proof -
  let ?E = "scenario_env [(''https://B/time'', RejectedHTTPError unauthorized_response)]"
  have "Http_do ?E scenario_client scenario_args initial_state =
        tryAHost ?E scenario_client scenario_args [''A'', ''B''] False initial_state"
    by (simp add: Http_do_cold initial_state_def default_sequence_def scenario_client_simps)
  also have "\<dots> = (Called unauthorized_args,
    \<lparr>currentFallback = Some \<lparr>host = Some ''B'', validUntil = 601002\<rparr>,
     agent = Some scenario_agents, sent = [scenario_request ''A'', scenario_request ''B'']\<rparr>)"
    using scenario_two_hosts [of initial_state
        "[(''https://B/time'', RejectedHTTPError unauthorized_response)]" unauthorized_args]
    by (simp add: initial_state_def settle_unauthorized)
  finally show ?thesis
    by (simp add: unauthorized_args_def unauthorized_error_def shouldFallback_def)
qed

section \<open>A malformed error body\<close>

text \<open>
  Claim C6, at the input where the code departs from it. Host \<open>A\<close> answers 400, declares
  JSON and carries the malformed body \<open>{\<close>. The HTTP library rejects with an HTTP error, so
  the handler runs inside the \<open>catch\<close> reaction (line 209); there the decoder's exception
  leaves the handler, nothing catches it, and the callback is never invoked: the dispatch
  delivers nothing and host \<open>B\<close> is never tried. Had the library fulfilled with the same
  response (line 206), the same exception would have been caught by the \<open>catch\<close> reaction
  and handed to the callback as its error.
\<close>

theorem malformed_error_body_unhandled:
  "handler (scenario_env []) None (Some malformed_response) (Buffer (res_body malformed_response))
     = Inl SyntaxError
   \<and> settle (scenario_env []) (RejectedHTTPError malformed_response) = Unhandled SyntaxError
   \<and> settle (scenario_env []) (Fulfilled malformed_response) =
       Called (CallbackErr (error_of_exception SyntaxError))
   \<and> Http_do (scenario_env [(''https://A/time'', RejectedHTTPError malformed_response)])
         scenario_client scenario_args initial_state =
       (Unhandled SyntaxError,
        \<lparr>currentFallback = None, agent = Some scenario_agents, sent = [scenario_request ''A'']\<rparr>)"
proof (intro conjI)
  have thrown: "handler (scenario_env t) None (Some malformed_response)
      (Buffer (res_body malformed_response)) = Inl SyntaxError" for t
    by (simp add: handler_def decode_body_def malformed_response_def json_headers_def
          scenario_env_simps scenario_parse_def)
  show "handler (scenario_env []) None (Some malformed_response)
      (Buffer (res_body malformed_response)) = Inl SyntaxError"
    by (rule thrown)
  have unhandled: "settle (scenario_env t) (RejectedHTTPError malformed_response) =
      Unhandled SyntaxError" for t
    by (simp add: settle_def thrown)
  show "settle (scenario_env []) (RejectedHTTPError malformed_response) = Unhandled SyntaxError"
    by (rule unhandled)
  show "settle (scenario_env []) (Fulfilled malformed_response) =
       Called (CallbackErr (error_of_exception SyntaxError))"
    by (simp add: settle_def thrown handler_err)
  let ?E = "scenario_env [(''https://A/time'', RejectedHTTPError malformed_response)]"
  have "Http_do ?E scenario_client scenario_args initial_state =
        tryAHost ?E scenario_client scenario_args [''A'', ''B''] False initial_state"
    by (simp add: Http_do_cold initial_state_def default_sequence_def scenario_client_simps)
  also have "\<dots> = (Unhandled SyntaxError, after_request initial_state (scenario_request ''A''))"
    by (simp add: tryAHost_Cons [of _ _ _ "''A''"] scenario_host_request initial_state_def
          scenario_env_simps got_table_scenario unhandled)
  finally show "Http_do ?E scenario_client scenario_args initial_state =
       (Unhandled SyntaxError,
        \<lparr>currentFallback = None, agent = Some scenario_agents, sent = [scenario_request ''A'']\<rparr>)"
    by (simp add: after_request_def initial_state_def)
qed

section \<open>The stored fallback\<close>

text \<open>
  Claim C7. When the stored record has \<open>validUntil \<le> now\<close> at entry, the dispatch is the
  dispatch of a client with nothing stored: the record is cleared and the default sequence
  runs from host resolution, so no request goes out on the stored-fallback path.
\<close>

theorem expired_fallback_is_cold_start:
  assumes "currentFallback s = Some cf" and "validUntil cf \<le> now E (length (sent s))"
  shows "Http_do E rest a s = Http_do E rest a (s\<lparr>currentFallback := None\<rparr>)
         \<and> Http_do E rest a s = default_sequence E rest a (s\<lparr>currentFallback := None\<rparr>)"
  using assms by (simp add: Http_do_expired Http_do_cold)

text \<open>The record for \<open>B\<close> expired at exactly the time of entry: the dispatch starts with
  \<open>A\<close> all the same.\<close>

theorem expired_fallback_is_cold_start_witness:
  "currentFallback expired_state = Some \<lparr>host = Some ''B'', validUntil = 1000\<rparr>
   \<and> validUntil \<lparr>host = Some ''B'', validUntil = 1000\<rparr>
        \<le> now (scenario_env [(''https://B/time'', Fulfilled ok_response)])
              (length (sent expired_state))
   \<and> Http_do (scenario_env [(''https://B/time'', Fulfilled ok_response)])
         scenario_client scenario_args expired_state =
       (Called ok_args,
        \<lparr>currentFallback = Some \<lparr>host = Some ''B'', validUntil = 601002\<rparr>,
         agent = Some scenario_agents, sent = [scenario_request ''A'', scenario_request ''B'']\<rparr>)"
proof -
  let ?E = "scenario_env [(''https://B/time'', Fulfilled ok_response)]"
  let ?cf = "\<lparr>host = Some ''B'', validUntil = 1000\<rparr>"
  have h1: "currentFallback expired_state = Some ?cf" by (simp add: expired_state_def)
  have h2: "validUntil ?cf \<le> now ?E (length (sent expired_state))"
    by (simp add: expired_state_def scenario_env_simps scenario_clock_def)
  have cleared: "expired_state\<lparr>currentFallback := None\<rparr> = initial_state"
    by (simp add: expired_state_def initial_state_def)
  have "default_sequence ?E scenario_client scenario_args initial_state =
        tryAHost ?E scenario_client scenario_args [''A'', ''B''] False initial_state"
    by (simp add: default_sequence_def scenario_client_simps)
  also have "\<dots> = (Called ok_args,
        \<lparr>currentFallback = Some \<lparr>host = Some ''B'', validUntil = 601002\<rparr>,
         agent = Some scenario_agents, sent = [scenario_request ''A'', scenario_request ''B'']\<rparr>)"
    using scenario_two_hosts [of initial_state "[(''https://B/time'', Fulfilled ok_response)]" ok_args]
    by (simp add: initial_state_def settle_ok)
  finally have run: "default_sequence ?E scenario_client scenario_args initial_state =
      (Called ok_args,
        \<lparr>currentFallback = Some \<lparr>host = Some ''B'', validUntil = 601002\<rparr>,
         agent = Some scenario_agents, sent = [scenario_request ''A'', scenario_request ''B'']\<rparr>)" .
  from expired_fallback_is_cold_start [OF h1 h2, of scenario_client scenario_args]
  have "Http_do ?E scenario_client scenario_args expired_state =
        default_sequence ?E scenario_client scenario_args initial_state"
    unfolding cleared by (rule conjunct2)
  from this run have "Http_do ?E scenario_client scenario_args expired_state =
      (Called ok_args,
        \<lparr>currentFallback = Some \<lparr>host = Some ''B'', validUntil = 601002\<rparr>,
         agent = Some scenario_agents, sent = [scenario_request ''A'', scenario_request ''B'']\<rparr>)"
    by (rule trans)
  with h1 h2 show ?thesis by (intro conjI)
qed

text \<open>
  Claim C9. When the stored record is used and the one request to the stored host ends in a
  callback without a retryable error (a success or an error that is not retryable), the
  dispatch hands exactly that outcome to the caller, has made that one request only, and the
  stored record is what it was: same host, same \<open>validUntil\<close>.
\<close>

theorem stored_fallback_kept:
  assumes "currentFallback s = Some cf" and "validUntil cf > now E (length (sent s))"
    and "settle E (got E (length (sent s)) (host_request E rest a s (host cf))) = Called args"
    and "\<not> retryable args"
  shows "fst (Http_do E rest a s) = Called args
         \<and> currentFallback (snd (Http_do E rest a s)) = Some cf
         \<and> added s (snd (Http_do E rest a s)) = [host_request E rest a s (host cf)]"
proof -
  from assms(3,4) have "\<not> retryable_outcome
      (settle E (got E (length (sent s)) (host_request E rest a s (host cf))))"
    by (simp add: retryable_outcome_def)
  with assms(1,2) have "Http_do E rest a s =
      (settle E (got E (length (sent s)) (host_request E rest a s (host cf))),
       after_request s (host_request E rest a s (host cf)))"
    by (simp add: Http_do_stored)
  with assms(1,3) show ?thesis by (simp add: added_def)
qed

text \<open>Host \<open>B\<close> is stored until 5000 and answers 200 at time 1000: the record still says
  5000 afterwards.\<close>

theorem stored_fallback_kept_witness:
  "Http_do (scenario_env [(''https://B/time'', Fulfilled ok_response)])
     scenario_client scenario_args stored_state =
   (Called ok_args,
    \<lparr>currentFallback = Some \<lparr>host = Some ''B'', validUntil = 5000\<rparr>,
     agent = Some scenario_agents, sent = [scenario_request ''B'']\<rparr>)"
proof -
  let ?E = "scenario_env [(''https://B/time'', Fulfilled ok_response)]"
  let ?cf = "\<lparr>host = Some ''B'', validUntil = 5000\<rparr>"
  have h1: "currentFallback stored_state = Some ?cf" by (simp add: stored_state_def)
  have h2: "validUntil ?cf > now ?E (length (sent stored_state))"
    by (simp add: stored_state_def scenario_env_simps scenario_clock_def)
  have req: "host_request ?E scenario_client scenario_args stored_state (host ?cf) =
             scenario_request ''B''"
    by (simp add: scenario_host_request stored_state_def)
  have h3: "settle ?E (got ?E (length (sent stored_state))
              (host_request ?E scenario_client scenario_args stored_state (host ?cf))) =
            Called ok_args"
    unfolding req by (simp add: scenario_env_simps got_table_scenario settle_ok)
  have h4: "\<not> retryable ok_args" by (rule retryable_scenario_args)
  from stored_fallback_kept [OF h1 h2 h3 h4] have
    r1: "fst (Http_do ?E scenario_client scenario_args stored_state) = Called ok_args"
    and r2: "currentFallback (snd (Http_do ?E scenario_client scenario_args stored_state)) = Some ?cf"
    and r3: "added stored_state (snd (Http_do ?E scenario_client scenario_args stored_state)) =
             [scenario_request ''B'']"
    unfolding req by simp_all
  from Http_do_sent [of ?E scenario_client scenario_args stored_state]
  have r4: "agent (snd (Http_do ?E scenario_client scenario_args stored_state)) =
            Some scenario_agents"
    by (simp add: agent_in_use_def stored_state_def agentOptions_for_def scenario_client_def
          scenario_env_simps scenario_agents_def)
  from r3 have r5: "sent (snd (Http_do ?E scenario_client scenario_args stored_state)) =
      [scenario_request ''B'']"
    by (simp add: added_def stored_state_def)
  obtain out s' where eq: "Http_do ?E scenario_client scenario_args stored_state = (out, s')"
    by (cases "Http_do ?E scenario_client scenario_args stored_state")
  from r1 r2 r4 r5 show ?thesis
    unfolding eq by (cases s') simp
qed

text \<open>
  Claim C4. When a record that has not expired is stored at entry, the first request of the
  dispatch goes to the stored host. If its outcome is not a retryable error, that request is
  the only one. If it is, the dispatch continues as the dispatch from the state in which the
  record has been cleared, and that dispatch is the default sequence from host resolution: the
  dispatch enters itself once, not twice. In all, the dispatch makes at most one request more
  than there are hosts (two when there is no host).
\<close>

theorem stored_fallback_single_restart:
  assumes "currentFallback s = Some cf" and "validUntil cf > now E (length (sent s))"
  shows "\<exists>reqs.
           sent (snd (Http_do E rest a s)) = sent s @ host_request E rest a s (host cf) # reqs
         \<and> length reqs \<le> max 1 (length (getHosts rest))
         \<and> (if retryable_outcome
                 (settle E (got E (length (sent s)) (host_request E rest a s (host cf))))
            then Http_do E rest a s =
                   Http_do E rest a
                     ((after_request s (host_request E rest a s (host cf)))\<lparr>currentFallback := None\<rparr>)
               \<and> Http_do E rest a
                     ((after_request s (host_request E rest a s (host cf)))\<lparr>currentFallback := None\<rparr>)
                   = default_sequence E rest a
                       ((after_request s (host_request E rest a s (host cf)))\<lparr>currentFallback := None\<rparr>)
            else Http_do E rest a s =
                   (settle E (got E (length (sent s)) (host_request E rest a s (host cf))),
                    after_request s (host_request E rest a s (host cf)))
               \<and> reqs = [])"
proof -
  let ?r = "host_request E rest a s (host cf)"
  let ?s1 = "(after_request s ?r)\<lparr>currentFallback := None\<rparr>"
  show ?thesis
  proof (cases "retryable_outcome (settle E (got E (length (sent s)) ?r))")
    case True
    with assms have restart: "Http_do E rest a s = Http_do E rest a ?s1"
      by (simp add: Http_do_stored)
    have cold: "Http_do E rest a ?s1 = default_sequence E rest a ?s1"
      by (simp add: Http_do_cold)
    from default_sequence_sent [of E rest a ?s1] obtain reqs where
      sent: "sent (snd (default_sequence E rest a ?s1)) = sent ?s1 @ reqs"
      and len: "length reqs \<le> max 1 (length (getHosts rest))"
      by blast
    have "sent (snd (Http_do E rest a s)) = sent s @ ?r # reqs"
      unfolding restart cold sent by simp
    with len restart cold True show ?thesis
      by (intro exI [of _ reqs]) simp
  next
    case False
    with assms have "Http_do E rest a s =
        (settle E (got E (length (sent s)) ?r), after_request s ?r)"
      by (simp add: Http_do_stored)
    with False show ?thesis
      by (intro exI [of _ "[]"]) simp
  qed
qed

text \<open>Host \<open>B\<close> is stored and every host times out: one request to \<open>B\<close>, then the
  default sequence \<open>A\<close>, \<open>B\<close>, three requests in all.\<close>

theorem stored_fallback_single_restart_witness:
  "currentFallback stored_state = Some \<lparr>host = Some ''B'', validUntil = 5000\<rparr>
   \<and> validUntil \<lparr>host = Some ''B'', validUntil = 5000\<rparr>
        > now (scenario_env []) (length (sent stored_state))
   \<and> Http_do (scenario_env []) scenario_client scenario_args stored_state =
       (Called (CallbackErr timed_out),
        \<lparr>currentFallback = Some \<lparr>host = Some ''B'', validUntil = 601003\<rparr>,
         agent = Some scenario_agents,
         sent = [scenario_request ''B'', scenario_request ''A'', scenario_request ''B'']\<rparr>)"
proof -
  let ?E = "scenario_env []"
  let ?cf = "\<lparr>host = Some ''B'', validUntil = 5000\<rparr>"
  let ?s1 = "\<lparr>currentFallback = None, agent = Some scenario_agents,
             sent = [scenario_request ''B'']\<rparr>"
  have h1: "currentFallback stored_state = Some ?cf" by (simp add: stored_state_def)
  have h2: "validUntil ?cf > now ?E (length (sent stored_state))"
    by (simp add: stored_state_def scenario_env_simps scenario_clock_def)
  have req: "host_request ?E scenario_client scenario_args stored_state (host ?cf) =
             scenario_request ''B''"
    by (simp add: scenario_host_request stored_state_def)
  have retry: "retryable_outcome (settle ?E (got ?E (length (sent stored_state))
                 (scenario_request ''B'')))"
    by (simp add: scenario_env_simps got_table_scenario settle_Rejected retryable_outcome_def
          retryable_timed_out)
  have s1: "(after_request stored_state (scenario_request ''B''))\<lparr>currentFallback := None\<rparr> = ?s1"
    by (simp add: after_request_def stored_state_def)
  from stored_fallback_single_restart [OF h1 h2, of scenario_client scenario_args]
  have "Http_do ?E scenario_client scenario_args stored_state =
          Http_do ?E scenario_client scenario_args ?s1
        \<and> Http_do ?E scenario_client scenario_args ?s1 =
          default_sequence ?E scenario_client scenario_args ?s1"
    unfolding req s1 using retry by (elim exE conjE) simp
  then have "Http_do ?E scenario_client scenario_args stored_state =
             default_sequence ?E scenario_client scenario_args ?s1"
    by simp
  also have "\<dots> = tryAHost ?E scenario_client scenario_args [''A'', ''B''] False ?s1"
    by (simp add: default_sequence_def scenario_client_simps)
  also have "\<dots> = (Called (CallbackErr timed_out),
        \<lparr>currentFallback = Some \<lparr>host = Some ''B'', validUntil = 601003\<rparr>,
         agent = Some scenario_agents,
         sent = [scenario_request ''B'', scenario_request ''A'', scenario_request ''B'']\<rparr>)"
    using scenario_two_hosts [of ?s1 "[]" "CallbackErr timed_out"]
    by (simp add: settle_Rejected)
  finally have "Http_do ?E scenario_client scenario_args stored_state =
       (Called (CallbackErr timed_out),
        \<lparr>currentFallback = Some \<lparr>host = Some ''B'', validUntil = 601003\<rparr>,
         agent = Some scenario_agents,
         sent = [scenario_request ''B'', scenario_request ''A'', scenario_request ''B'']\<rparr>)" .
  with h1 h2 show ?thesis by (intro conjI)
qed

section \<open>The shared agent pair\<close>

lemma doUri_agent: "agent (snd (doUri E m rest uri h b p s)) = Some (agent_in_use E rest s)"
  by (simp add: doUri_eq)

lemma Http_do_agent: "agent (snd (Http_do E r a s)) = Some (agent_in_use E (Some r) s)"
  using Http_do_sent [of E r a s] by blast

lemma agent_in_use_stored: "agent s = Some pair \<Longrightarrow> agent_in_use E rest s = pair"
  by (simp add: agent_in_use_def)

lemma Http_do_added_agents:
  "map req_agent (added s (snd (Http_do E r a s))) =
     replicate (length (added s (snd (Http_do E r a s)))) (agent_in_use E (Some r) s)"
proof -
  from Http_do_sent [of E r a s] obtain reqs where
    sent: "sent (snd (Http_do E r a s)) = sent s @ reqs"
    and all: "\<forall>q \<in> set reqs. req_agent q = agent_in_use E (Some r) s"
    by blast
  have "added s (snd (Http_do E r a s)) = reqs" using sent by (rule added_append)
  moreover from all have "map req_agent reqs = replicate (length reqs) (agent_in_use E (Some r) s)"
    by (induction reqs) simp_all
  ultimately show ?thesis by simp
qed

text \<open>
  Claim C10. A request uses the stored agent pair if there is one; otherwise it builds a pair
  from the agent options of its caller, or from the defaults, and stores it. After any request,
  dispatch or probe the stored pair is that pair: a second request or dispatch by a caller with
  other agent options leaves it as the first made it, and every request of a dispatch carries
  it. Nothing in the module removes or replaces a stored pair.
\<close>

theorem agent_pair_created_once:
  "agent (snd (doUri E m rest uri h b p s)) = Some (agent_in_use E rest s)
   \<and> agent_in_use E rest (s\<lparr>agent := None\<rparr>) =
        \<lparr>http = agentOptions_for E rest, https = agentOptions_for E rest\<rparr>
   \<and> agent_in_use E rest (s\<lparr>agent := Some pair\<rparr>) = pair
   \<and> agent (snd (doUri E m' rest' uri' h' b' p' (snd (doUri E m rest uri h b p s)))) =
        Some (agent_in_use E rest s)
   \<and> agent (snd (Http_do E r a s)) = Some (agent_in_use E (Some r) s)
   \<and> agent (snd (Http_do E r' a' (snd (Http_do E r a s)))) = Some (agent_in_use E (Some r) s)
   \<and> map req_agent (added s (snd (Http_do E r a s))) =
        replicate (length (added s (snd (Http_do E r a s)))) (agent_in_use E (Some r) s)
   \<and> agent (snd (checkConnectivity E s)) = Some (agent_in_use E None s)"
proof (intro conjI)
  show "agent (snd (doUri E m rest uri h b p s)) = Some (agent_in_use E rest s)"
    by (rule doUri_agent)
  show "agent_in_use E rest (s\<lparr>agent := None\<rparr>) =
        \<lparr>http = agentOptions_for E rest, https = agentOptions_for E rest\<rparr>"
    by (simp add: agent_in_use_def)
  show "agent_in_use E rest (s\<lparr>agent := Some pair\<rparr>) = pair"
    by simp
  show "agent (snd (doUri E m' rest' uri' h' b' p' (snd (doUri E m rest uri h b p s)))) =
        Some (agent_in_use E rest s)"
    by (simp add: doUri_agent agent_in_use_stored)
  show "agent (snd (Http_do E r a s)) = Some (agent_in_use E (Some r) s)"
    by (rule Http_do_agent)
  show "agent (snd (Http_do E r' a' (snd (Http_do E r a s)))) = Some (agent_in_use E (Some r) s)"
    by (simp add: Http_do_agent agent_in_use_stored)
  show "map req_agent (added s (snd (Http_do E r a s))) =
        replicate (length (added s (snd (Http_do E r a s)))) (agent_in_use E (Some r) s)"
    by (rule Http_do_added_agents)
  show "agent (snd (checkConnectivity E s)) = Some (agent_in_use E None s)"
    by (simp add: checkConnectivity_unfold probe_request_def)
qed

text \<open>The first dispatch is made by a client without agent options of its own, so the pair
  is built from the defaults; a dispatch by a client that asks for other agent options still
  finds the pair of the first.\<close>

theorem agent_pair_created_once_witness:
  "agent (snd (Http_do (scenario_env []) scenario_client scenario_args initial_state)) =
     Some scenario_agents
   \<and> agent (snd (Http_do (scenario_env []) other_client scenario_args
        (snd (Http_do (scenario_env []) scenario_client scenario_args initial_state)))) =
     Some scenario_agents
   \<and> restAgentOptions other_client = Some \<lparr>keepAlive = False, maxSockets = 1\<rparr>"
proof -
  have use: "agent_in_use (scenario_env []) (Some scenario_client) initial_state = scenario_agents"
    by (simp add: agent_in_use_def initial_state_def agentOptions_for_def scenario_client_def
          scenario_env_simps scenario_agents_def)
  have other: "restAgentOptions other_client = Some \<lparr>keepAlive = False, maxSockets = 1\<rparr>"
    by (simp add: other_client_def)
  from agent_pair_created_once [of "scenario_env []" _ _ _ _ _ _ initial_state _ _ _ _ _ _ _
      scenario_client scenario_args other_client scenario_args]
  have "agent (snd (Http_do (scenario_env []) scenario_client scenario_args initial_state)) =
          Some (agent_in_use (scenario_env []) (Some scenario_client) initial_state)"
    and "agent (snd (Http_do (scenario_env []) other_client scenario_args
           (snd (Http_do (scenario_env []) scenario_client scenario_args initial_state)))) =
          Some (agent_in_use (scenario_env []) (Some scenario_client) initial_state)"
    by blast+
  with use other show ?thesis by simp
qed

end
